theory Spec2Isabelle
  imports Complex_Main
begin

section \<open>The seed data generator \<open>data/import.py\<close>\<close>

text \<open>
  The script writes two SQL files, \<open>animals.sql\<close> and \<open>plants.sql\<close>. It takes no input:
  its parameters are module-level constants. The model follows the script statement by
  statement. Each call of \<open>f.write\<close> appends its argument to the list of writes of the
  open file; the content of the file is the concatenation of that list.
\<close>

subsection \<open>Python numbers\<close>

text \<open>
  The script mixes \<open>int\<close> and \<open>float\<close>: \<open>/\<close> is true division and yields a float even
  for two ints, and \<open>%\<close> with a float operand yields a float. A float is modelled by its
  exact rational value. This agrees with IEEE double arithmetic and with \<open>repr\<close> only
  on the fragment \<open>float_ok\<close>: the non-negative integers below \<open>2^53\<close>. Every operation
  checks that its operands and its result stay inside the fragment and otherwise stops
  with \<open>FloatOutsideModel\<close>, which is not a Python exception but the edge of the model.
\<close>

datatype pynum = PyInt int | PyFloat rat

datatype error = ZeroDivisionError | NameError string | FloatOutsideModel

definition ebind :: "error + 'a \<Rightarrow> ('a \<Rightarrow> error + 'b) \<Rightarrow> error + 'b" where
  "ebind m f = (case m of Inl e \<Rightarrow> Inl e | Inr x \<Rightarrow> f x)"

definition float_ok :: "rat \<Rightarrow> bool" where
  "float_ok q \<longleftrightarrow> 0 \<le> q \<and> q < 2 ^ 53 \<and> of_int \<lfloor>q\<rfloor> = q"

definition mk_float :: "rat \<Rightarrow> error + pynum" where
  "mk_float q = (if float_ok q then Inr (PyFloat q) else Inl FloatOutsideModel)"

text \<open>The float operand of a mixed operation: an int is converted to float.\<close>

fun as_float :: "pynum \<Rightarrow> error + rat" where
  "as_float (PyInt a) = (if float_ok (of_int a) then Inr (of_int a) else Inl FloatOutsideModel)"
| "as_float (PyFloat q) = (if float_ok q then Inr q else Inl FloatOutsideModel)"

text \<open>\<open>x / y\<close>: true division, always a float.\<close>

definition py_truediv :: "pynum \<Rightarrow> pynum \<Rightarrow> error + pynum" where
  "py_truediv x y =
     ebind (as_float x) (\<lambda>fx. ebind (as_float y) (\<lambda>fy.
       if fy = 0 then Inl ZeroDivisionError else mk_float (fx / fy)))"

text \<open>
  \<open>x % y\<close>: on two ints the floored remainder, an int; as soon as one operand is a float
  the result is the float \<open>x - y * floor (x / y)\<close> (both operands non-negative here).
\<close>

fun py_mod :: "pynum \<Rightarrow> pynum \<Rightarrow> error + pynum" where
  "py_mod (PyInt a) (PyInt b) =
     (if b = 0 then Inl ZeroDivisionError else Inr (PyInt (a mod b)))"
| "py_mod x y =
     ebind (as_float x) (\<lambda>fx. ebind (as_float y) (\<lambda>fy.
       if fy = 0 then Inl ZeroDivisionError
       else mk_float (fx - fy * of_int \<lfloor>fx / fy\<rfloor>)))"

text \<open>\<open>x == y\<close> on numbers compares the mathematical values.\<close>

fun py_val :: "pynum \<Rightarrow> rat" where
  "py_val (PyInt a) = of_int a"
| "py_val (PyFloat q) = q"

definition py_eq :: "pynum \<Rightarrow> pynum \<Rightarrow> bool" where
  "py_eq x y \<longleftrightarrow> py_val x = py_val y"

subsection \<open>Formatting\<close>

definition digit_char :: "nat \<Rightarrow> char" where
  "digit_char d = ''0123456789'' ! d"

function str_nat :: "nat \<Rightarrow> string" where
  "str_nat n = (if n < 10 then [digit_char n] else str_nat (n div 10) @ [digit_char (n mod 10)])"
  by pat_completeness auto
termination
  by (relation "measure id") auto

declare str_nat.simps [simp del]

definition str_int :: "int \<Rightarrow> string" where
  "str_int i = (if i < 0 then CHR ''-'' # str_nat (nat (- i)) else str_nat (nat i))"

text \<open>
  What an f-string field \<open>{x}\<close> renders for a number: the decimal digits of an int; for
  a float of integral value the digits followed by \<open>.0\<close>.
\<close>

fun py_str :: "pynum \<Rightarrow> error + string" where
  "py_str (PyInt a) = Inr (str_int a)"
| "py_str (PyFloat q) =
     (if float_ok q then Inr (str_int \<lfloor>q\<rfloor> @ ''.0'') else Inl FloatOutsideModel)"

subsection \<open>Module-level constants\<close>

definition row_cnt :: int where
  "row_cnt = 200000"

definition custom_plants :: string where
  "custom_plants =
     ''insert into plants values\<newline>'' @
     ''  (-1,'sunflower', 3,1),\<newline>'' @
     ''  (-2,'carnation',0,1),\<newline>'' @
     ''  (-3,'wildflower',4,3);\<newline>''"

definition custom_animals :: string where
  "custom_animals =
     ''insert into animals values\<newline>'' @
     ''  (-1,'goat',2,4),\<newline>'' @
     ''  (-2,'cow',1,3),\<newline>'' @
     ''  (-3,'chicken',0,1);\<newline>''"

subsection \<open>State\<close>

text \<open>
  The script runs at module level, so \<open>category\<close> and \<open>elevation\<close> are global names
  that survive from the first \<open>with\<close> block into the second. A name that has not been
  assigned yet is \<open>None\<close>; reading it raises \<open>NameError\<close>.
\<close>

record state =
  fout :: "string list"
  category :: "pynum option"
  elevation :: "pynum option"

definition f_write :: "string \<Rightarrow> state \<Rightarrow> state" where
  "f_write x s = s\<lparr>fout := fout s @ [x]\<rparr>"

definition read_name :: "string \<Rightarrow> pynum option \<Rightarrow> error + pynum" where
  "read_name name v = (case v of None \<Rightarrow> Inl (NameError name) | Some x \<Rightarrow> Inr x)"

text \<open>The f-string \<open>f"  ({i},'name{i}',{category},{elevation})"\<close>.\<close>

definition row_text :: "int \<Rightarrow> pynum \<Rightarrow> pynum \<Rightarrow> error + string" where
  "row_text i c e =
     ebind (py_str c) (\<lambda>cs. ebind (py_str e) (\<lambda>es.
       Inr (''  ('' @ str_int i @ '','name'' @ str_int i @ CHR 0x27 # '','' @ cs @ '','' @ es @ '')'')))"

text \<open>
  The \<open>if\<close>/\<open>elif\<close> at the head of the loop body, the same in both loops but for the
  text \<open>header\<close> of the second write. \<open>and\<close> short-circuits: the remainder is only
  computed for \<open>i > 0\<close>.
\<close>

definition separator :: "string \<Rightarrow> pynum \<Rightarrow> int \<Rightarrow> state \<Rightarrow> error + state" where
  "separator header insert_batch_cnt i s =
     ebind (if i > 0
            then ebind (py_mod (PyInt i) insert_batch_cnt) (\<lambda>r. Inr (py_eq r (PyInt 0)))
            else Inr False)
       (\<lambda>boundary.
          if boundary then
            Inr (f_write header (f_write '';\<newline>'' s))
          else if i > 0 then Inr (f_write '',\<newline>'' s)
          else Inr s)"

subsection \<open>The two loops\<close>

text \<open>The statements of the loop bodies, one definition per statement.\<close>

text \<open>\<open>category = i % (row_cnt / 50)\<close>\<close>

definition assign_category :: "int \<Rightarrow> state \<Rightarrow> error + state" where
  "assign_category i s =
     ebind (py_truediv (PyInt row_cnt) (PyInt 50)) (\<lambda>m.
     ebind (py_mod (PyInt i) m) (\<lambda>c.
       Inr (s\<lparr>category := Some c\<rparr>)))"

text \<open>\<open>elevation = i % (row_cnt / 1000)\<close>\<close>

definition assign_elevation :: "int \<Rightarrow> state \<Rightarrow> error + state" where
  "assign_elevation i s =
     ebind (py_truediv (PyInt row_cnt) (PyInt 1000)) (\<lambda>m.
     ebind (py_mod (PyInt i) m) (\<lambda>e.
       Inr (s\<lparr>elevation := Some e\<rparr>)))"

text \<open>
  \<open>f.write(f"  ({i},'name{i}',{category},{elevation})")\<close>: the f-string reads the two
  global names, in this order, before anything is written.
\<close>

definition write_row :: "int \<Rightarrow> state \<Rightarrow> error + state" where
  "write_row i s =
     ebind (read_name ''category'' (category s)) (\<lambda>c.
     ebind (read_name ''elevation'' (elevation s)) (\<lambda>e.
     ebind (row_text i c e) (\<lambda>t.
       Inr (f_write t s))))"

text \<open>
  The body of the first loop assigns \<open>category\<close> and \<open>elevation\<close> and then writes the
  row; the body of the second loop writes the row first and assigns afterwards.
\<close>

definition animals_body :: "pynum \<Rightarrow> int \<Rightarrow> state \<Rightarrow> error + state" where
  "animals_body insert_batch_cnt i s =
     ebind (separator ''insert into animals values\<newline>'' insert_batch_cnt i s) (\<lambda>s1.
     ebind (assign_category i s1) (\<lambda>s2.
     ebind (assign_elevation i s2) (\<lambda>s3.
       write_row i s3)))"

definition plants_body :: "pynum \<Rightarrow> int \<Rightarrow> state \<Rightarrow> error + state" where
  "plants_body insert_batch_cnt i s =
     ebind (separator ''insert into plants values\<newline>'' insert_batch_cnt i s) (\<lambda>s1.
     ebind (write_row i s1) (\<lambda>s2.
     ebind (assign_category i s2) (\<lambda>s3.
       assign_elevation i s3)))"

text \<open>\<open>for i in xs: body\<close>; an exception in the body ends the loop.\<close>

fun for_loop :: "(int \<Rightarrow> state \<Rightarrow> error + state) \<Rightarrow> int list \<Rightarrow> state \<Rightarrow> error + state" where
  "for_loop body [] s = Inr s"
| "for_loop body (i # is) s = ebind (body i s) (for_loop body is)"

definition py_range :: "int \<Rightarrow> int list" where
  "py_range n = map int [0..<nat n]"

text \<open>
  The two \<open>with open(..., "w") as f\<close> blocks. Opening truncates the file, so each block
  starts from no writes; the names \<open>category\<close> and \<open>elevation\<close> are kept.
\<close>

definition animals_block :: "pynum \<Rightarrow> state \<Rightarrow> error + state" where
  "animals_block insert_batch_cnt s0 =
     (let s1 = f_write ''create table animals (id int primary key, name varchar(20), category int, elevation int, key (name), key (category), key (elevation))\<newline>;'' (s0\<lparr>fout := []\<rparr>);
          s2 = f_write custom_animals s1;
          s3 = f_write ''insert into animals values\<newline>'' s2
      in ebind (for_loop (animals_body insert_batch_cnt) (py_range row_cnt) s3) (\<lambda>s4.
           Inr (f_write '';\<newline>'' s4)))"

definition plants_block :: "pynum \<Rightarrow> state \<Rightarrow> error + state" where
  "plants_block insert_batch_cnt s0 =
     (let s1 = f_write ''create table plants (id int primary key, name varchar(20), category int, elevation int, key (name), key (category), key (elevation))\<newline>;'' (s0\<lparr>fout := []\<rparr>);
          s2 = f_write custom_plants s1;
          s3 = f_write ''insert into plants values\<newline>'' s2
      in ebind (for_loop (plants_body insert_batch_cnt) (py_range row_cnt) s3) (\<lambda>s4.
           Inr (f_write '';\<newline>'' s4)))"

text \<open>
  The whole script. The result is the pair of write lists of \<open>animals.sql\<close> and
  \<open>plants.sql\<close>, or the exception that ended the run.
\<close>

definition main :: "error + (string list \<times> string list)" where
  "main =
     ebind (py_truediv (PyInt row_cnt) (PyInt 20)) (\<lambda>insert_batch_cnt.
     ebind (animals_block insert_batch_cnt \<lparr>fout = [], category = None, elevation = None\<rparr>) (\<lambda>sa.
     ebind (plants_block insert_batch_cnt sa) (\<lambda>sp.
       Inr (fout sa, fout sp))))"

definition file_content :: "string list \<Rightarrow> string" where
  "file_content ws = concat ws"

section \<open>Reading the output\<close>

text \<open>
  The properties below are stated on what the script wrote. These functions read the
  list of writes and the text of a file; none of them is part of the script.
\<close>

text \<open>
  \<open>split_on c xs\<close> cuts \<open>xs\<close> at every occurrence of \<open>c\<close>, as Python's \<open>str.split\<close> does
  for a one-character separator: the pieces contain no \<open>c\<close>, and there is one piece more
  than there are occurrences.
\<close>

fun split_on :: "'a \<Rightarrow> 'a list \<Rightarrow> 'a list list" where
  "split_on c [] = [[]]"
| "split_on c (x # xs) =
     (if x = c then [] # split_on c xs
      else (case split_on c xs of [] \<Rightarrow> [[x]] | p # ps \<Rightarrow> (x # p) # ps))"

text \<open>
  A row is a piece of text that starts with two blanks and an opening parenthesis. The
  generated rows of a file are the writes of that shape: every generated row is one
  write of its own, and the hand-authored rows sit inside the single write of
  \<open>custom_animals\<close> or \<open>custom_plants\<close>, whose rows are its lines of that shape.
\<close>

definition is_row :: "string \<Rightarrow> bool" where
  "is_row w \<longleftrightarrow> take 3 w = ''  (''"

definition generated_rows :: "string list \<Rightarrow> string list" where
  "generated_rows ws = filter is_row ws"

definition seed_rows :: "string \<Rightarrow> string list" where
  "seed_rows s = filter is_row (split_on CHR ''\<newline>'' s)"

text \<open>The comma-separated fields of a row, and the four columns read from them.\<close>

definition fields :: "string \<Rightarrow> string list" where
  "fields w = split_on CHR '','' w"

definition field :: "nat \<Rightarrow> string \<Rightarrow> string" where
  "field n w = (if n < length (fields w) then fields w ! n else [])"

definition digit_val :: "char \<Rightarrow> nat" where
  "digit_val c = of_char c - 48"

definition parse_nat :: "string \<Rightarrow> nat" where
  "parse_nat s = foldl (\<lambda>acc c. 10 * acc + digit_val c) 0 s"

definition parse_int :: "string \<Rightarrow> int" where
  "parse_int s = (case s of [] \<Rightarrow> 0 | c # r \<Rightarrow> if c = CHR ''-'' then - int (parse_nat r) else int (parse_nat s))"

text \<open>The id is the number between the opening parenthesis and the first comma.\<close>

definition row_id :: "string \<Rightarrow> int" where
  "row_id w = parse_int (drop 3 (takeWhile (\<lambda>c. c \<noteq> CHR '','') w))"

text \<open>The name is the second field without its quotes.\<close>

definition row_name :: "string \<Rightarrow> string" where
  "row_name w = butlast (tl (field 1 w))"

definition row_category :: "string \<Rightarrow> string" where
  "row_category w = field 2 w"

text \<open>The elevation is the last field without the closing parenthesis.\<close>

definition row_elevation :: "string \<Rightarrow> string" where
  "row_elevation w = butlast (field 3 w)"

text \<open>Text that an int could have been rendered as: not empty, digits and sign only.\<close>

definition int_formatted :: "string \<Rightarrow> bool" where
  "int_formatted s \<longleftrightarrow> s \<noteq> [] \<and> set s \<subseteq> set ''-0123456789''"

text \<open>
  The decimal notation of a natural number, read without the renderer: not empty,
  digits only, and no leading zero unless it is the single digit.
\<close>

definition decimal_digits :: "string \<Rightarrow> bool" where
  "decimal_digits s \<longleftrightarrow>
     s \<noteq> [] \<and> set s \<subseteq> set ''0123456789'' \<and> (length s = 1 \<or> hd s \<in> set ''123456789'')"

text \<open>The statements of a file are its pieces between semicolons.\<close>

definition is_create_table :: "string \<Rightarrow> bool" where
  "is_create_table s \<longleftrightarrow> take 12 s = ''create table''"

text \<open>\<open>interleave s xs\<close> puts \<open>s\<close> between the elements of \<open>xs\<close>.\<close>

fun interleave :: "'a \<Rightarrow> 'a list \<Rightarrow> 'a list" where
  "interleave s [] = []"
| "interleave s [x] = [x]"
| "interleave s (x # y # ys) = x # s # interleave s (y # ys)"

text \<open>The \<open>j\<close>-th group of 10000 rows.\<close>

definition batch :: "string list \<Rightarrow> nat \<Rightarrow> string list" where
  "batch rows j = take 10000 (drop (j * 10000) rows)"

section \<open>Closed form of the two write lists\<close>

text \<open>
  What the loops compute, without state, floats or errors. The proofs show that the
  script produces exactly these lists; the properties are then read off them.
\<close>

text \<open>The writes that precede row \<open>i\<close>.\<close>

definition sep_writes :: "string \<Rightarrow> int \<Rightarrow> string list" where
  "sep_writes header i =
     (if i > 0 \<and> i mod 10000 = 0 then ['';\<newline>'', header]
      else if i > 0 then ['',\<newline>''] else [])"

text \<open>The text of row \<open>i\<close> when the two floats have the integral values \<open>c\<close> and \<open>e\<close>.\<close>

definition row_line :: "int \<Rightarrow> int \<Rightarrow> int \<Rightarrow> string" where
  "row_line i c e =
     ''  ('' @ str_int i @ '','name'' @ str_int i @ CHR 0x27 # '','' @
     str_int c @ ''.0'' @ '','' @ str_int e @ ''.0'' @ '')''"

definition chunk :: "string \<Rightarrow> (nat \<Rightarrow> string) \<Rightarrow> nat \<Rightarrow> string list" where
  "chunk h r k = sep_writes h (int k) @ [r k]"

definition animals_row :: "nat \<Rightarrow> string" where
  "animals_row k = row_line (int k) (int k mod 4000) (int k mod 200)"

definition animals_chunk :: "nat \<Rightarrow> string list" where
  "animals_chunk k =
     sep_writes ''insert into animals values\<newline>'' (int k) @
     [row_line (int k) (int k mod 4000) (int k mod 200)]"

text \<open>
  The value a name holds when iteration \<open>k\<close> of the second loop writes its row: the
  value \<open>v0\<close> it had before the loop for \<open>k = 0\<close>, the remainder of \<open>k - 1\<close> afterwards.
\<close>

definition lagged :: "int \<Rightarrow> int \<Rightarrow> nat \<Rightarrow> int" where
  "lagged v0 m k = (if k = 0 then v0 else (int k - 1) mod m)"

definition plants_row :: "nat \<Rightarrow> string" where
  "plants_row k = row_line (int k) (lagged 3999 4000 k) (lagged 199 200 k)"

definition plants_chunk :: "int \<Rightarrow> int \<Rightarrow> nat \<Rightarrow> string list" where
  "plants_chunk c0 e0 k =
     sep_writes ''insert into plants values\<newline>'' (int k) @
     [row_line (int k) (lagged c0 4000 k) (lagged e0 200 k)]"

definition animals_writes :: "string list" where
  "animals_writes =
     [''create table animals (id int primary key, name varchar(20), category int, elevation int, key (name), key (category), key (elevation))\<newline>;'',
      custom_animals, ''insert into animals values\<newline>''] @
     concat (map animals_chunk [0..<200000]) @ ['';\<newline>'']"

definition plants_writes :: "string list" where
  "plants_writes =
     [''create table plants (id int primary key, name varchar(20), category int, elevation int, key (name), key (category), key (elevation))\<newline>;'',
      custom_plants, ''insert into plants values\<newline>''] @
     concat (map (plants_chunk 3999 199) [0..<200000]) @ ['';\<newline>'']"

section \<open>The script produces the closed form\<close>

lemma float_ok_of_int: "float_ok (of_int k) \<longleftrightarrow> 0 \<le> k \<and> k < 2 ^ 53"
proof -
  have "(rat_of_int k < 2 ^ 53) = (k < 2 ^ 53)"
    by (metis of_int_less_iff of_int_numeral of_int_power)
  then show ?thesis by (simp add: float_ok_def)
qed

lemma truediv_20: "py_truediv (PyInt row_cnt) (PyInt 20) = Inr (PyFloat 10000)"
  by (simp add: py_truediv_def row_cnt_def ebind_def mk_float_def float_ok_def)

lemma truediv_50: "py_truediv (PyInt row_cnt) (PyInt 50) = Inr (PyFloat 4000)"
  by (simp add: py_truediv_def row_cnt_def ebind_def mk_float_def float_ok_def)

lemma truediv_1000: "py_truediv (PyInt row_cnt) (PyInt 1000) = Inr (PyFloat 200)"
  by (simp add: py_truediv_def row_cnt_def ebind_def mk_float_def float_ok_def)

lemma rat_mod: "rat_of_int i - of_int m * of_int \<lfloor>rat_of_int i / of_int m\<rfloor> = of_int (i mod m)"
  by (metis floor_divide_of_int_eq minus_mult_div_eq_mod of_int_diff of_int_mult)

lemma py_mod_int_float:
  assumes "0 \<le> i" "i < 2 ^ 53" "0 < m" "m < 2 ^ 53"
  shows "py_mod (PyInt i) (PyFloat (of_int m)) = Inr (PyFloat (of_int (i mod m)))"
proof -
  have a: "float_ok (of_int i)" "float_ok (of_int m)"
    using assms by (simp_all add: float_ok_of_int)
  have "0 \<le> i mod m" "i mod m < m" using assms by simp_all
  with assms(4) have "0 \<le> i mod m" "i mod m < 2 ^ 53" by linarith+
  then have b: "float_ok (of_int (i mod m))"
    by (simp add: float_ok_of_int)
  have c: "rat_of_int m \<noteq> 0" using assms by simp
  show ?thesis
    using a b c by (simp add: ebind_def mk_float_def rat_mod)
qed

lemma py_mod_10000:
  assumes "0 \<le> i" "i < 2 ^ 53"
  shows "py_mod (PyInt i) (PyFloat 10000) = Inr (PyFloat (of_int (i mod 10000)))"
  using py_mod_int_float [OF assms, of 10000] by simp

lemma py_mod_4000:
  assumes "0 \<le> i" "i < 2 ^ 53"
  shows "py_mod (PyInt i) (PyFloat 4000) = Inr (PyFloat (of_int (i mod 4000)))"
  using py_mod_int_float [OF assms, of 4000] by simp

lemma py_mod_200:
  assumes "0 \<le> i" "i < 2 ^ 53"
  shows "py_mod (PyInt i) (PyFloat 200) = Inr (PyFloat (of_int (i mod 200)))"
  using py_mod_int_float [OF assms, of 200] by simp

lemma py_str_float:
  assumes "0 \<le> k" "k < 2 ^ 53"
  shows "py_str (PyFloat (of_int k)) = Inr (str_int k @ ''.0'')"
  using assms by (simp add: float_ok_of_int)

lemma mod_float_ok:
  assumes "0 < m" "m < 2 ^ 53"
  shows "0 \<le> i mod m \<and> i mod m < (2 ^ 53 :: int)"
proof -
  have "0 \<le> i mod m" "i mod m < m" using assms by simp_all
  with assms(2) show ?thesis by linarith
qed

lemma row_text_float:
  assumes "0 \<le> c" "c < 2 ^ 53" "0 \<le> e" "e < 2 ^ 53"
  shows "row_text i (PyFloat (of_int c)) (PyFloat (of_int e)) = Inr (row_line i c e)"
  using assms by (simp add: row_text_def ebind_def py_str_float row_line_def del: py_str.simps)

lemma separator_eq:
  assumes "0 \<le> i" "i < 2 ^ 53"
  shows "separator header (PyFloat 10000) i s = Inr (s\<lparr>fout := fout s @ sep_writes header i\<rparr>)"
proof (cases "i > 0")
  case True
  then show ?thesis
    using assms
    by (simp add: separator_def py_mod_10000 ebind_def py_eq_def sep_writes_def f_write_def
        del: py_mod.simps)
next
  case False
  then show ?thesis
    by (simp add: separator_def ebind_def sep_writes_def)
qed

lemma animals_body_eq:
  assumes "0 \<le> i" "i < 2 ^ 53"
  shows "animals_body (PyFloat 10000) i s =
    Inr \<lparr>fout = fout s @ sep_writes ''insert into animals values\<newline>'' i
                   @ [row_line i (i mod 4000) (i mod 200)],
         category = Some (PyFloat (of_int (i mod 4000))),
         elevation = Some (PyFloat (of_int (i mod 200)))\<rparr>"
proof -
  have m1: "0 \<le> i mod 4000 \<and> i mod 4000 < 2 ^ 53" by (rule mod_float_ok) simp_all
  have m2: "0 \<le> i mod 200 \<and> i mod 200 < 2 ^ 53" by (rule mod_float_ok) simp_all
  show ?thesis
    using assms m1 m2
    by (simp add: animals_body_def assign_category_def assign_elevation_def write_row_def
        separator_eq truediv_50 truediv_1000 py_mod_4000 py_mod_200
        row_text_float ebind_def f_write_def read_name_def del: py_mod.simps py_str.simps)
qed

lemma plants_body_eq:
  assumes "0 \<le> i" "i < 2 ^ 53"
    and "category s = Some (PyFloat (of_int c))" "0 \<le> c" "c < 2 ^ 53"
    and "elevation s = Some (PyFloat (of_int e))" "0 \<le> e" "e < 2 ^ 53"
  shows "plants_body (PyFloat 10000) i s =
    Inr \<lparr>fout = fout s @ sep_writes ''insert into plants values\<newline>'' i
                   @ [row_line i c e],
         category = Some (PyFloat (of_int (i mod 4000))),
         elevation = Some (PyFloat (of_int (i mod 200)))\<rparr>"
proof -
  have m1: "0 \<le> i mod 4000 \<and> i mod 4000 < 2 ^ 53" by (rule mod_float_ok) simp_all
  have m2: "0 \<le> i mod 200 \<and> i mod 200 < 2 ^ 53" by (rule mod_float_ok) simp_all
  show ?thesis
    using assms m1 m2
    by (simp add: plants_body_def assign_category_def assign_elevation_def write_row_def
        separator_eq truediv_50 truediv_1000 py_mod_4000 py_mod_200
        row_text_float ebind_def f_write_def read_name_def del: py_mod.simps py_str.simps)
qed

lemma for_loop_append:
  "for_loop body (xs @ ys) s = ebind (for_loop body xs s) (for_loop body ys)"
  by (induction xs arbitrary: s) (auto simp: ebind_def split: sum.splits)

lemma animals_loop_eq:
  assumes "int n \<le> 2 ^ 53"
  shows "for_loop (animals_body (PyFloat 10000)) (map int [0..<n]) s =
    Inr \<lparr>fout = fout s @ concat (map animals_chunk [0..<n]),
         category = (if n = 0 then category s else Some (PyFloat (of_int (int (n - 1) mod 4000)))),
         elevation = (if n = 0 then elevation s else Some (PyFloat (of_int (int (n - 1) mod 200))))\<rparr>"
  using assms
proof (induction n)
  case 0
  then show ?case by simp
next
  case (Suc n)
  have b: "0 \<le> int n" "int n < 2 ^ 53" using Suc.prems by simp_all
  have ih: "for_loop (animals_body (PyFloat 10000)) (map int [0..<n]) s =
    Inr \<lparr>fout = fout s @ concat (map animals_chunk [0..<n]),
         category = (if n = 0 then category s else Some (PyFloat (of_int (int (n - 1) mod 4000)))),
         elevation = (if n = 0 then elevation s else Some (PyFloat (of_int (int (n - 1) mod 200))))\<rparr>"
    using Suc by simp
  have step: "animals_body (PyFloat 10000) (int n) t =
    Inr \<lparr>fout = fout t @ animals_chunk n,
         category = Some (PyFloat (of_int (int n mod 4000))),
         elevation = Some (PyFloat (of_int (int n mod 200)))\<rparr>" for t
    by (simp add: animals_body_eq [OF b] animals_chunk_def)
  show ?case
    by (simp add: for_loop_append ih ebind_def step)
qed

lemma lagged_ok:
  assumes "0 \<le> v0" "v0 < 2 ^ 53" "0 < m" "m < 2 ^ 53"
  shows "0 \<le> lagged v0 m k \<and> lagged v0 m k < 2 ^ 53"
  using assms mod_float_ok [OF assms(3,4)] by (simp add: lagged_def)

lemma lagged_Suc: "lagged v0 m (Suc k) = int k mod m"
  by (simp add: lagged_def)

lemma plants_loop_eq:
  assumes "int n \<le> 2 ^ 53"
    and "category s = Some (PyFloat (of_int c0))" "0 \<le> c0" "c0 < 2 ^ 53"
    and "elevation s = Some (PyFloat (of_int e0))" "0 \<le> e0" "e0 < 2 ^ 53"
  shows "for_loop (plants_body (PyFloat 10000)) (map int [0..<n]) s =
    Inr \<lparr>fout = fout s @ concat (map (plants_chunk c0 e0) [0..<n]),
         category = Some (PyFloat (of_int (lagged c0 4000 n))),
         elevation = Some (PyFloat (of_int (lagged e0 200 n)))\<rparr>"
  using assms(1)
proof (induction n)
  case 0
  then show ?case using assms by (simp add: lagged_def)
next
  case (Suc n)
  have b: "0 \<le> int n" "int n < 2 ^ 53" using Suc.prems by simp_all
  let ?s = "\<lparr>fout = fout s @ concat (map (plants_chunk c0 e0) [0..<n]),
         category = Some (PyFloat (of_int (lagged c0 4000 n))),
         elevation = Some (PyFloat (of_int (lagged e0 200 n)))\<rparr>"
  have ih: "for_loop (plants_body (PyFloat 10000)) (map int [0..<n]) s = Inr ?s"
    using Suc by simp
  have c: "0 \<le> lagged c0 4000 n" "lagged c0 4000 n < 2 ^ 53"
    using lagged_ok [of c0 4000 n] assms by simp_all
  have e: "0 \<le> lagged e0 200 n" "lagged e0 200 n < 2 ^ 53"
    using lagged_ok [of e0 200 n] assms by simp_all
  have step: "plants_body (PyFloat 10000) (int n) ?s =
    Inr \<lparr>fout = fout ?s @ plants_chunk c0 e0 n,
         category = Some (PyFloat (of_int (int n mod 4000))),
         elevation = Some (PyFloat (of_int (int n mod 200)))\<rparr>"
    unfolding plants_chunk_def append_assoc
    by (rule plants_body_eq [OF b _ c _ e]) simp_all
  show ?case
    by (simp add: for_loop_append ih ebind_def step lagged_Suc)
qed

lemma range_row_cnt: "py_range row_cnt = map int [0..<200000]"
  by (simp add: py_range_def row_cnt_def)

lemma animals_block_eq:
  "animals_block (PyFloat 10000) s =
     Inr \<lparr>fout = animals_writes, category = Some (PyFloat 3999), elevation = Some (PyFloat 199)\<rparr>"
  by (simp add: animals_block_def range_row_cnt animals_loop_eq ebind_def f_write_def
      animals_writes_def)

lemma plants_block_eq:
  "plants_block (PyFloat 10000)
       \<lparr>fout = ws, category = Some (PyFloat 3999), elevation = Some (PyFloat 199)\<rparr> =
     Inr \<lparr>fout = plants_writes, category = Some (PyFloat 3999), elevation = Some (PyFloat 199)\<rparr>"
proof -
  have "for_loop (plants_body (PyFloat 10000)) (map int [0..<200000])
          \<lparr>fout = xs, category = Some (PyFloat 3999), elevation = Some (PyFloat 199)\<rparr> =
        Inr \<lparr>fout = xs @ concat (map (plants_chunk 3999 199) [0..<200000]),
         category = Some (PyFloat (of_int (lagged 3999 4000 200000))),
         elevation = Some (PyFloat (of_int (lagged 199 200 200000)))\<rparr>" for xs
    using plants_loop_eq [of 200000 "\<lparr>fout = xs, category = Some (PyFloat 3999), elevation = Some (PyFloat 199)\<rparr>" 3999 199]
    by simp
  then show ?thesis
    by (simp add: plants_block_def range_row_cnt ebind_def f_write_def plants_writes_def lagged_def)
qed

lemma main_eq: "main = Inr (animals_writes, plants_writes)"
  by (simp add: main_def truediv_20 animals_block_eq plants_block_eq ebind_def)

lemma digit_char_in: "d < 10 \<Longrightarrow> digit_char d \<in> set ''0123456789''"
  unfolding digit_char_def by (rule nth_mem) simp

lemma str_nat_digits: "set (str_nat n) \<subseteq> set ''0123456789''"
proof (induction n rule: str_nat.induct)
  case (1 n)
  show ?case
  proof (cases "n < 10")
    case True
    then show ?thesis
      using digit_char_in [of n] by (subst str_nat.simps) simp
  next
    case False
    have "n mod 10 < 10" by simp
    then have "digit_char (n mod 10) \<in> set ''0123456789''" by (rule digit_char_in)
    then show ?thesis
      using False 1 by (subst str_nat.simps) simp
  qed
qed

lemma str_int_chars:
  assumes "c \<in> set (str_int i)"
  shows "c = CHR ''-'' \<or> c \<in> set ''0123456789''"
proof (cases "i < 0")
  case True
  then have "c = CHR ''-'' \<or> c \<in> set (str_nat (nat (- i)))"
    using assms by (simp add: str_int_def)
  then show ?thesis
    using str_nat_digits [of "nat (- i)"] by blast
next
  case False
  then have "c \<in> set (str_nat (nat i))"
    using assms by (simp add: str_int_def)
  then show ?thesis
    using str_nat_digits [of "nat i"] by blast
qed

lemma str_int_no_comma: "CHR '','' \<notin> set (str_int i)"
proof
  assume "CHR '','' \<in> set (str_int i)"
  from str_int_chars [OF this] show False by simp
qed

lemma str_int_no_semi: "CHR '';'' \<notin> set (str_int i)"
proof
  assume "CHR '';'' \<in> set (str_int i)"
  from str_int_chars [OF this] show False by simp
qed

lemma str_int_no_dot: "CHR ''.'' \<notin> set (str_int i)"
proof
  assume "CHR ''.'' \<in> set (str_int i)"
  from str_int_chars [OF this] show False by simp
qed

lemma split_on_none: "c \<notin> set a \<Longrightarrow> split_on c a = [a]"
  by (induction a) auto

lemma split_on_append: "c \<notin> set a \<Longrightarrow> split_on c (a @ c # b) = a # split_on c b"
  by (induction a) auto

lemma is_row_row_line: "is_row (row_line i c e)"
  by (simp add: is_row_def row_line_def)

lemma filter_sep_writes:
  "\<not> is_row h \<Longrightarrow> filter is_row (sep_writes h i) = []"
  by (simp add: sep_writes_def is_row_def)

lemma headers_not_rows:
  "\<not> is_row ''insert into animals values\<newline>''"
  "\<not> is_row ''insert into plants values\<newline>''"
  by (simp_all add: is_row_def)

lemma filter_animals_chunk: "filter is_row (animals_chunk k) = [animals_row k]"
  by (simp add: animals_chunk_def filter_sep_writes headers_not_rows is_row_row_line animals_row_def)

lemma filter_plants_chunk: "filter is_row (plants_chunk 3999 199 k) = [plants_row k]"
  by (simp add: plants_chunk_def filter_sep_writes headers_not_rows is_row_row_line plants_row_def)

lemma filter_concat_chunks:
  assumes "\<And>k. filter P (f k) = [g k]"
  shows "filter P (concat (map f ks)) = map g ks"
  by (induction ks) (simp_all add: assms)

lemma generated_rows_animals: "generated_rows animals_writes = map animals_row [0..<200000]"
  unfolding generated_rows_def animals_writes_def filter_append
  by (simp add: filter_concat_chunks [of is_row animals_chunk animals_row, OF filter_animals_chunk]
      is_row_def custom_animals_def)

lemma generated_rows_plants: "generated_rows plants_writes = map plants_row [0..<200000]"
  unfolding generated_rows_def plants_writes_def filter_append
  by (simp add: filter_concat_chunks [of is_row "plants_chunk 3999 199" plants_row, OF filter_plants_chunk]
      is_row_def custom_plants_def)

lemma fields_row_line:
  "fields (row_line i c e) =
     [''  ('' @ str_int i, CHR 0x27 # ''name'' @ str_int i @ [CHR 0x27],
      str_int c @ ''.0'', str_int e @ ''.0)'']"
proof -
  let ?a = "''  ('' @ str_int i"
  let ?b = "CHR 0x27 # ''name'' @ str_int i @ [CHR 0x27]"
  let ?c = "str_int c @ ''.0''"
  let ?d = "str_int e @ ''.0)''"
  have na: "CHR '','' \<notin> set ?a" and nb: "CHR '','' \<notin> set ?b"
    and nc: "CHR '','' \<notin> set ?c" and nd: "CHR '','' \<notin> set ?d"
    by (simp_all add: str_int_no_comma)
  have "row_line i c e = ?a @ CHR '','' # (?b @ CHR '','' # (?c @ CHR '','' # ?d))"
    by (simp add: row_line_def)
  then have "fields (row_line i c e) = split_on CHR '','' (?a @ CHR '','' # (?b @ CHR '','' # (?c @ CHR '','' # ?d)))"
    by (simp only: fields_def)
  also have "\<dots> = ?a # split_on CHR '','' (?b @ CHR '','' # (?c @ CHR '','' # ?d))"
    by (rule split_on_append [OF na])
  also have "split_on CHR '','' (?b @ CHR '','' # (?c @ CHR '','' # ?d)) = ?b # split_on CHR '','' (?c @ CHR '','' # ?d)"
    by (rule split_on_append [OF nb])
  also have "split_on CHR '','' (?c @ CHR '','' # ?d) = ?c # split_on CHR '','' ?d"
    by (rule split_on_append [OF nc])
  also have "split_on CHR '','' ?d = [?d]"
    by (rule split_on_none [OF nd])
  finally show ?thesis .
qed

lemma row_category_line: "row_category (row_line i c e) = str_int c @ ''.0''"
  by (simp add: row_category_def field_def fields_row_line)

lemma row_elevation_line: "row_elevation (row_line i c e) = str_int e @ ''.0''"
  by (simp add: row_elevation_def field_def fields_row_line butlast_append)

lemma row_name_line: "row_name (row_line i c e) = ''name'' @ str_int i"
  by (simp add: row_name_def field_def fields_row_line butlast_append)

lemma str_nat_nonempty: "str_nat n \<noteq> []"
  by (subst str_nat.simps) simp

lemma digit_cases:
  assumes "d < (10::nat)"
  shows "d = 0 \<or> d = 1 \<or> d = 2 \<or> d = 3 \<or> d = 4 \<or> d = 5 \<or> d = 6 \<or> d = 7 \<or> d = 8 \<or> d = 9"
  using assms by arith

lemma digit_val_char: "d < 10 \<Longrightarrow> digit_val (digit_char d) = d"
  using digit_cases [of d] by (auto simp: digit_val_def digit_char_def)

lemma parse_nat_snoc: "parse_nat (xs @ [c]) = 10 * parse_nat xs + digit_val c"
  by (simp add: parse_nat_def)

lemma parse_nat_single: "parse_nat [c] = digit_val c"
  by (simp add: parse_nat_def)

lemma parse_str_nat: "parse_nat (str_nat n) = n"
proof (induction n rule: str_nat.induct)
  case (1 n)
  show ?case
  proof (cases "n < 10")
    case True
    then show ?thesis
      by (subst str_nat.simps) (simp add: parse_nat_single digit_val_char)
  next
    case False
    then have "parse_nat (str_nat (n div 10)) = n div 10" using 1 by simp
    then show ?thesis
      using False by (subst str_nat.simps) (simp add: parse_nat_snoc digit_val_char)
  qed
qed

lemma str_nat_no_minus: "CHR ''-'' \<notin> set (str_nat n)"
proof
  assume "CHR ''-'' \<in> set (str_nat n)"
  then have "CHR ''-'' \<in> set ''0123456789''" using str_nat_digits [of n] by blast
  then show False by simp
qed

lemma parse_str_int: "parse_int (str_int i) = i"
proof (cases "i < 0")
  case True
  then show ?thesis by (simp add: str_int_def parse_int_def parse_str_nat)
next
  case False
  obtain c r where cr: "str_nat (nat i) = c # r"
    using str_nat_nonempty [of "nat i"] by (cases "str_nat (nat i)") auto
  have "c \<noteq> CHR ''-''" using str_nat_no_minus [of "nat i"] cr by auto
  moreover have "parse_nat (c # r) = nat i" using parse_str_nat [of "nat i"] cr by simp
  ultimately show ?thesis using False cr by (simp add: str_int_def parse_int_def)
qed

lemma row_id_line: "row_id (row_line i c e) = i"
proof -
  let ?a = "''  ('' @ str_int i"
  let ?P = "\<lambda>c. c \<noteq> CHR '',''"
  have all: "\<forall>x\<in>set ?a. ?P x" using str_int_no_comma [of i] by auto
  have tw: "takeWhile ?P (?a @ CHR '','' # rest) = takeWhile ?P ?a" for rest
    by (rule takeWhile_tail) simp
  have "row_line i c e = ?a @ CHR '','' # ((CHR 0x27 # ''name'') @ str_int i @ CHR 0x27 # '','' @ str_int c @ ''.0'' @ '','' @ str_int e @ ''.0'' @ '')'')"
    by (simp add: row_line_def)
  then have "takeWhile ?P (row_line i c e) = takeWhile ?P ?a"
    by (simp only: tw)
  also have "\<dots> = ?a" using all by (simp only: takeWhile_eq_all_conv)
  finally show ?thesis by (simp add: row_id_def parse_str_int)
qed

lemma str_int_small:
  "str_int 0 = ''0''" "str_int 1 = ''1''" "str_int 199 = ''199''" "str_int 3999 = ''3999''"
  by (simp_all add: str_int_def str_nat.simps digit_char_def)

lemma animals_row_0: "animals_row 0 = ''  (0,'name0',0.0,0.0)''"
  by (simp add: animals_row_def row_line_def str_int_small)

lemma animals_row_1: "animals_row 1 = ''  (1,'name1',1.0,1.0)''"
  by (simp add: animals_row_def row_line_def str_int_small)

lemma plants_row_0: "plants_row 0 = ''  (0,'name0',3999.0,199.0)''"
  by (simp add: plants_row_def row_line_def str_int_small lagged_def)

lemma plants_row_1: "plants_row 1 = ''  (1,'name1',0.0,0.0)''"
  by (simp add: plants_row_def row_line_def str_int_small lagged_def)

lemma nat_row_cnt: "nat row_cnt = 200000"
  by (simp add: row_cnt_def)

lemma plants_row_lag:
  "k \<noteq> 0 \<Longrightarrow> plants_row k = row_line (int k) ((int k - 1) mod 4000) ((int k - 1) mod 200)"
  by (simp add: plants_row_def lagged_def)

lemma tl_rows: "tl (map f [0..<200000]) = map f [1..<200000]"
  by (simp add: map_tl [symmetric] del: map_tl)

lemma dot_not_int_formatted: "CHR ''.'' \<in> set s \<Longrightarrow> \<not> int_formatted s"
proof
  assume d: "CHR ''.'' \<in> set s" and "int_formatted s"
  then have "CHR ''.'' \<in> set ''-0123456789''" unfolding int_formatted_def by blast
  then show False by simp
qed

lemma int_formatted_str_int: "int_formatted (str_int a)"
proof -
  have "str_int a \<noteq> []"
    using str_nat_nonempty by (simp add: str_int_def)
  moreover have "c \<in> set ''-0123456789''" if "c \<in> set (str_int a)" for c
    using str_int_chars [OF that] by auto
  ultimately show ?thesis unfolding int_formatted_def by blast
qed

lemma row_fields_not_int:
  "\<not> (int_formatted (row_category (row_line i c e)) \<or> int_formatted (row_elevation (row_line i c e)))"
  by (simp add: row_category_line row_elevation_line dot_not_int_formatted)

lemma length_str_nat: "0 < d \<Longrightarrow> n < 10 ^ d \<Longrightarrow> length (str_nat n) \<le> d"
proof (induction d arbitrary: n)
  case 0
  then show ?case by simp
next
  case (Suc d)
  show ?case
  proof (cases "n < 10")
    case True
    then show ?thesis by (subst str_nat.simps) simp
  next
    case False
    with Suc.prems have d: "0 < d" by (cases d) auto
    have "n div 10 < 10 ^ d" using Suc.prems by (simp add: less_mult_imp_div_less mult.commute)
    then have "length (str_nat (n div 10)) \<le> d" using Suc.IH d by blast
    then show ?thesis using False by (subst str_nat.simps) simp
  qed
qed

lemma length_name:
  assumes "k < 200000"
  shows "length (''name'' @ str_int (int k)) \<le> 10"
proof -
  have "k < 10 ^ 6" using assms by simp
  then have "length (str_nat k) \<le> 6" by (intro length_str_nat) simp_all
  then show ?thesis by (simp add: str_int_def)
qed

lemma seed_rows_animals:
  "seed_rows custom_animals = [''  (-1,'goat',2,4),'', ''  (-2,'cow',1,3),'', ''  (-3,'chicken',0,1);'']"
  by (simp add: seed_rows_def custom_animals_def is_row_def)

lemma seed_rows_plants:
  "seed_rows custom_plants =
     [''  (-1,'sunflower', 3,1),'', ''  (-2,'carnation',0,1),'', ''  (-3,'wildflower',4,3);'']"
  by (simp add: seed_rows_def custom_plants_def is_row_def)

lemma seed_ids_animals: "map row_id (seed_rows custom_animals) = [-1, -2, -3]"
  by (simp add: seed_rows_animals row_id_def parse_int_def parse_nat_def digit_val_def)

lemma seed_ids_plants: "map row_id (seed_rows custom_plants) = [-1, -2, -3]"
  by (simp add: seed_rows_plants row_id_def parse_int_def parse_nat_def digit_val_def)

lemma ids_animals: "map row_id (generated_rows animals_writes) = py_range row_cnt"
  by (simp add: generated_rows_animals range_row_cnt animals_row_def row_id_line)

lemma ids_plants: "map row_id (generated_rows plants_writes) = py_range row_cnt"
  by (simp add: generated_rows_plants range_row_cnt plants_row_def row_id_line)

lemma distinct_seed_generated: "distinct ([-1, -2, -3] @ map int [0..<n])"
proof -
  have "distinct (map int [0..<n])" by (simp add: distinct_map)
  moreover have "x \<notin> set (map int [0..<n])" if "x < 0" for x using that by auto
  ultimately show ?thesis by simp
qed

lemma interleave_snoc: "xs \<noteq> [] \<Longrightarrow> interleave s (xs @ [x]) = interleave s xs @ [s, x]"
  by (induction s xs rule: interleave.induct) auto

lemma animals_chunk_chunk: "animals_chunk = chunk ''insert into animals values\<newline>'' animals_row"
  by (rule ext) (simp add: animals_chunk_def chunk_def animals_row_def)

lemma plants_chunk_chunk: "plants_chunk 3999 199 = chunk ''insert into plants values\<newline>'' plants_row"
  by (rule ext) (simp add: plants_chunk_def chunk_def plants_row_def)

lemma sep_writes_first: "sep_writes h (int b * 10000) = (if b = 0 then [] else ['';\<newline>'', h])"
  by (simp add: sep_writes_def)

lemma sep_writes_inner:
  assumes "0 < j" "j < 10000"
  shows "sep_writes h (int (b * 10000 + j)) = ['',\<newline>'']"
proof -
  have "(b * 10000 + j) mod 10000 = j" using assms by simp
  then have "int (b * 10000 + j) mod 10000 \<noteq> 0"
    using assms by (metis of_nat_0_eq_iff of_nat_mod of_nat_numeral less_numeral_extra(3))
  moreover have "0 < int (b * 10000 + j)" using assms by simp
  ultimately show ?thesis unfolding sep_writes_def by simp
qed

lemma batch_chunks:
  "j < 10000 \<Longrightarrow>
   concat (map (chunk h r) [b * 10000 ..< b * 10000 + Suc j]) =
     (if b = 0 then [] else ['';\<newline>'', h]) @
     interleave '',\<newline>'' (map r [b * 10000 ..< b * 10000 + Suc j])"
proof (induction j)
  case 0
  then show ?case by (simp add: chunk_def sep_writes_first)
next
  case (Suc j)
  define xs where "xs = [b * 10000 ..< b * 10000 + Suc j]"
  define k where "k = b * 10000 + Suc j"
  define pre where "pre = (if b = 0 then [] else ['';\<newline>'', h])"
  have s: "sep_writes h (int (b * 10000 + Suc j)) = ['',\<newline>'']"
    using Suc.prems by (intro sep_writes_inner) simp_all
  have u: "[b * 10000 ..< b * 10000 + Suc (Suc j)] = xs @ [k]"
    unfolding xs_def k_def by simp
  have ne: "map r xs \<noteq> []" unfolding xs_def by simp
  have ck: "chunk h r k = ['',\<newline>'', r k]"
    unfolding chunk_def k_def s by simp
  have ih: "concat (map (chunk h r) xs) = pre @ interleave '',\<newline>'' (map r xs)"
    unfolding xs_def pre_def using Suc by simp
  have "concat (map (chunk h r) (xs @ [k])) = concat (map (chunk h r) xs) @ chunk h r k"
    by simp
  also have "\<dots> = pre @ (interleave '',\<newline>'' (map r xs) @ ['',\<newline>'', r k])"
    by (simp only: ih ck append_assoc)
  also have "interleave '',\<newline>'' (map r xs) @ ['',\<newline>'', r k] =
      interleave '',\<newline>'' (map r xs @ [r k])"
    by (rule interleave_snoc [OF ne, symmetric])
  also have "map r xs @ [r k] = map r (xs @ [k])" by simp
  finally show ?case unfolding u pre_def .
qed

lemma batch_chunks_full:
  "concat (map (chunk h r) [b * 10000 ..< b * 10000 + 10000]) =
     (if b = 0 then [] else ['';\<newline>'', h]) @
     interleave '',\<newline>'' (map r [b * 10000 ..< b * 10000 + 10000])"
  using batch_chunks [of 9999 h r b] by simp

lemma regroup:
  "h # concat (map (chunk h r) [0 ..< Suc b * 10000]) @ ['';\<newline>''] =
   concat (map (\<lambda>j. h # interleave '',\<newline>'' (map r [j * 10000 ..< j * 10000 + 10000]) @ ['';\<newline>''])
     [0 ..< Suc b])"
proof (induction b)
  case 0
  show ?case using batch_chunks_full [of h r 0] by simp
next
  case (Suc b)
  have u: "[0 ..< Suc (Suc b) * 10000] = [0 ..< Suc b * 10000] @ [Suc b * 10000 ..< Suc b * 10000 + 10000]"
    using upt_add_eq_append [of 0 "Suc b * 10000" 10000] by (simp add: add.commute)
  have "h # concat (map (chunk h r) [0 ..< Suc (Suc b) * 10000]) @ ['';\<newline>''] =
      (h # concat (map (chunk h r) [0 ..< Suc b * 10000]) @ ['';\<newline>'']) @
      (h # interleave '',\<newline>'' (map r [Suc b * 10000 ..< Suc b * 10000 + 10000]) @ ['';\<newline>''])"
    unfolding u map_append concat_append batch_chunks_full [of h r "Suc b"] by simp
  then show ?case
    unfolding Suc.IH by simp
qed

lemma regroup_20:
  "h # concat (map (chunk h r) [0 ..< 200000]) @ ['';\<newline>''] =
   concat (map (\<lambda>j. h # interleave '',\<newline>'' (map r [j * 10000 ..< j * 10000 + 10000]) @ ['';\<newline>''])
     [0 ..< 20])"
  using regroup [of h r 19] by simp

lemma animals_writes_batches:
  "animals_writes =
     [''create table animals (id int primary key, name varchar(20), category int, elevation int, key (name), key (category), key (elevation))\<newline>;'',
      custom_animals] @
     concat (map (\<lambda>j. ''insert into animals values\<newline>'' #
                     interleave '',\<newline>'' (map animals_row [j * 10000 ..< j * 10000 + 10000]) @ ['';\<newline>''])
       [0 ..< 20])"
  unfolding animals_writes_def animals_chunk_chunk
  using regroup_20 [of "''insert into animals values\<newline>''" animals_row] by simp

lemma plants_writes_batches:
  "plants_writes =
     [''create table plants (id int primary key, name varchar(20), category int, elevation int, key (name), key (category), key (elevation))\<newline>;'',
      custom_plants] @
     concat (map (\<lambda>j. ''insert into plants values\<newline>'' #
                     interleave '',\<newline>'' (map plants_row [j * 10000 ..< j * 10000 + 10000]) @ ['';\<newline>''])
       [0 ..< 20])"
  unfolding plants_writes_def plants_chunk_chunk
  using regroup_20 [of "''insert into plants values\<newline>''" plants_row] by simp

lemma batch_of_map:
  assumes "j < 20"
  shows "batch (map r [0 ..< 200000]) j = map r [j * 10000 ..< j * 10000 + 10000]"
proof -
  have "j * 10000 + 10000 \<le> 200000" using assms by simp
  then have "take 10000 [0 + j * 10000 ..< 200000] = [0 + j * 10000 ..< 0 + j * 10000 + 10000]"
    by (intro take_upt) simp
  then show ?thesis
    by (simp add: batch_def drop_map take_map)
qed

lemma set_interleave: "set (interleave s xs) \<subseteq> insert s (set xs)"
  by (induction s xs rule: interleave.induct) auto


lemma concat_concat_map: "concat (concat (map f js)) = concat (map (\<lambda>j. concat (f j)) js)"
  by (induction js) simp_all


lemma split_on_statements:
  assumes "\<forall>j\<in>set js. c \<notin> set (f j)" "c \<notin> set t"
  shows "split_on c (t @ concat (map (\<lambda>j. f j @ c # t) js)) = map (\<lambda>j. t @ f j) js @ [t]"
  using assms
proof (induction js)
  case Nil
  then show ?case by (simp add: split_on_none)
next
  case (Cons j js)
  have n: "c \<notin> set (t @ f j)" using Cons.prems by simp
  have "t @ concat (map (\<lambda>j. f j @ c # t) (j # js)) =
        (t @ f j) @ c # (t @ concat (map (\<lambda>j. f j @ c # t) js))"
    by simp
  then have "split_on c (t @ concat (map (\<lambda>j. f j @ c # t) (j # js))) =
        (t @ f j) # split_on c (t @ concat (map (\<lambda>j. f j @ c # t) js))"
    by (simp only: split_on_append [OF n])
  then show ?case using Cons by simp
qed

lemma row_line_no_semi: "CHR '';'' \<notin> set (row_line i c e)"
  by (simp add: row_line_def str_int_no_semi)

lemma joined_no_semi:
  assumes "\<forall>k. CHR '';'' \<notin> set (r k)"
  shows "CHR '';'' \<notin> set (concat (interleave '',\<newline>'' (map r ks)))"
proof
  assume "CHR '';'' \<in> set (concat (interleave '',\<newline>'' (map r ks)))"
  then obtain w where w: "w \<in> set (interleave '',\<newline>'' (map r ks))" "CHR '';'' \<in> set w"
    by auto
  then have "w = '',\<newline>'' \<or> w \<in> set (map r ks)" using set_interleave by fastforce
  then show False using w(2) assms by auto
qed

lemma concat_batches:
  "concat (map (\<lambda>j. map r [j * 10000 ..< j * 10000 + 10000]) [0 ..< b]) = map r [0 ..< b * 10000]"
proof (induction b)
  case 0
  show ?case by simp
next
  case (Suc b)
  have "[0 ..< Suc b * 10000] = [0 ..< b * 10000] @ [b * 10000 ..< b * 10000 + 10000]"
    using upt_add_eq_append [of 0 "b * 10000" 10000] by (simp add: add.commute)
  then show ?case using Suc by simp
qed

lemma statements_of_file:
  assumes r: "\<forall>k. CHR '';'' \<notin> set (r k)"
    and cb: "CHR '';'' \<notin> set cb" and cub: "CHR '';'' \<notin> set cub" and h: "CHR '';'' \<notin> set h"
  shows "split_on CHR '';''
           (concat ([cb @ '';'', cub @ '';\<newline>''] @
              concat (map (\<lambda>j. h # interleave '',\<newline>'' (map r [j * 10000 ..< j * 10000 + 10000]) @ ['';\<newline>''])
                [0 ..< 20]))) =
         cb # cub #
         map (\<lambda>j. ''\<newline>'' @ h @ concat (interleave '',\<newline>'' (map r [j * 10000 ..< j * 10000 + 10000])))
           [0 ..< 20] @ [''\<newline>'']"
proof -
  let ?J = "\<lambda>j. h @ concat (interleave '',\<newline>'' (map r [j * 10000 ..< j * 10000 + 10000]))"
  have nj: "\<forall>j\<in>set [0 ..< 20]. CHR '';'' \<notin> set (?J j)"
    using joined_no_semi [OF r] h by simp
  have nt: "CHR '';'' \<notin> set ''\<newline>''" by simp
  have "concat ([cb @ '';'', cub @ '';\<newline>''] @
              concat (map (\<lambda>j. h # interleave '',\<newline>'' (map r [j * 10000 ..< j * 10000 + 10000]) @ ['';\<newline>''])
                [0 ..< 20])) =
        cb @ CHR '';'' # (cub @ CHR '';'' # (''\<newline>'' @ concat (map (\<lambda>j. ?J j @ CHR '';'' # ''\<newline>'') [0 ..< 20])))"
    unfolding concat_append concat_concat_map by simp
  then have "split_on CHR '';''
           (concat ([cb @ '';'', cub @ '';\<newline>''] @
              concat (map (\<lambda>j. h # interleave '',\<newline>'' (map r [j * 10000 ..< j * 10000 + 10000]) @ ['';\<newline>''])
                [0 ..< 20]))) =
        cb # cub # split_on CHR '';'' (''\<newline>'' @ concat (map (\<lambda>j. ?J j @ CHR '';'' # ''\<newline>'') [0 ..< 20]))"
    by (simp only: split_on_append [OF cb] split_on_append [OF cub])
  also have "split_on CHR '';'' (''\<newline>'' @ concat (map (\<lambda>j. ?J j @ CHR '';'' # ''\<newline>'') [0 ..< 20])) =
      map (\<lambda>j. ''\<newline>'' @ ?J j) [0 ..< 20] @ [''\<newline>'']"
    by (rule split_on_statements [OF nj nt])
  finally show ?thesis by simp
qed

lemma animals_row_no_semi: "\<forall>k. CHR '';'' \<notin> set (animals_row k)"
  by (simp add: animals_row_def row_line_no_semi)

lemma plants_row_no_semi: "\<forall>k. CHR '';'' \<notin> set (plants_row k)"
  by (simp add: plants_row_def row_line_no_semi)

lemma statements_animals:
  "split_on CHR '';'' (file_content animals_writes) =
     [''create table animals (id int primary key, name varchar(20), category int, elevation int, key (name), key (category), key (elevation))\<newline>'',
      ''insert into animals values\<newline>  (-1,'goat',2,4),\<newline>  (-2,'cow',1,3),\<newline>  (-3,'chicken',0,1)''] @
     map (\<lambda>j. ''\<newline>'' @ ''insert into animals values\<newline>'' @
                concat (interleave '',\<newline>'' (map animals_row [j * 10000 ..< j * 10000 + 10000])))
       [0 ..< 20] @ [''\<newline>'']"
proof -
  let ?cb = "''create table animals (id int primary key, name varchar(20), category int, elevation int, key (name), key (category), key (elevation))\<newline>''"
  let ?cub = "''insert into animals values\<newline>  (-1,'goat',2,4),\<newline>  (-2,'cow',1,3),\<newline>  (-3,'chicken',0,1)''"
  let ?h = "''insert into animals values\<newline>''"
  have a: "animals_writes = [?cb @ '';'', ?cub @ '';\<newline>''] @
     concat (map (\<lambda>j. ?h # interleave '',\<newline>'' (map animals_row [j * 10000 ..< j * 10000 + 10000]) @ ['';\<newline>''])
       [0 ..< 20])"
    by (subst animals_writes_batches) (simp add: custom_animals_def)
  have n: "CHR '';'' \<notin> set ?cb" "CHR '';'' \<notin> set ?cub" "CHR '';'' \<notin> set ?h"
    by simp_all
  show ?thesis
    unfolding file_content_def a
    using statements_of_file [OF animals_row_no_semi n] by simp
qed

lemma statements_plants:
  "split_on CHR '';'' (file_content plants_writes) =
     [''create table plants (id int primary key, name varchar(20), category int, elevation int, key (name), key (category), key (elevation))\<newline>'',
      ''insert into plants values\<newline>  (-1,'sunflower', 3,1),\<newline>  (-2,'carnation',0,1),\<newline>  (-3,'wildflower',4,3)''] @
     map (\<lambda>j. ''\<newline>'' @ ''insert into plants values\<newline>'' @
                concat (interleave '',\<newline>'' (map plants_row [j * 10000 ..< j * 10000 + 10000])))
       [0 ..< 20] @ [''\<newline>'']"
proof -
  let ?cb = "''create table plants (id int primary key, name varchar(20), category int, elevation int, key (name), key (category), key (elevation))\<newline>''"
  let ?cub = "''insert into plants values\<newline>  (-1,'sunflower', 3,1),\<newline>  (-2,'carnation',0,1),\<newline>  (-3,'wildflower',4,3)''"
  let ?h = "''insert into plants values\<newline>''"
  have a: "plants_writes = [?cb @ '';'', ?cub @ '';\<newline>''] @
     concat (map (\<lambda>j. ?h # interleave '',\<newline>'' (map plants_row [j * 10000 ..< j * 10000 + 10000]) @ ['';\<newline>''])
       [0 ..< 20])"
    by (subst plants_writes_batches) (simp add: custom_plants_def)
  have n: "CHR '';'' \<notin> set ?cb" "CHR '';'' \<notin> set ?cub" "CHR '';'' \<notin> set ?h"
    by simp_all
  show ?thesis
    unfolding file_content_def a
    using statements_of_file [OF plants_row_no_semi n] by simp
qed

lemma batches_animals:
  "map (batch (generated_rows animals_writes)) [0 ..< 20] =
   map (\<lambda>j. map animals_row [j * 10000 ..< j * 10000 + 10000]) [0 ..< 20]"
  unfolding generated_rows_animals by (rule map_cong [OF refl]) (simp add: batch_of_map)

lemma batches_plants:
  "map (batch (generated_rows plants_writes)) [0 ..< 20] =
   map (\<lambda>j. map plants_row [j * 10000 ..< j * 10000 + 10000]) [0 ..< 20]"
  unfolding generated_rows_plants by (rule map_cong [OF refl]) (simp add: batch_of_map)



lemma no_semi_filter:
  assumes "\<forall>k. CHR '';'' \<notin> set (r k)"
  shows "filter (\<lambda>w. CHR '';'' \<in> set w) (map r ks) = []"
  using assms by (simp add: filter_empty_conv)

lemma animals_writes_head:
  "\<exists>rest. animals_writes =
     [''create table animals (id int primary key, name varchar(20), category int, elevation int, key (name), key (category), key (elevation))\<newline>;'',
      custom_animals, ''insert into animals values\<newline>'', animals_row 0] @ rest"
proof -
  have "[0..<200000] = 0 # [Suc 0..<200000]" by (rule upt_conv_Cons) simp
  then have "concat (map animals_chunk [0..<200000]) =
      animals_chunk 0 @ concat (map animals_chunk [Suc 0..<200000])"
    by (simp only: list.map concat.simps)
  moreover have "animals_chunk 0 = [animals_row 0]"
    by (simp add: animals_chunk_def sep_writes_def animals_row_def)
  ultimately show ?thesis unfolding animals_writes_def by simp
qed

lemma plants_writes_head:
  "\<exists>rest. plants_writes =
     [''create table plants (id int primary key, name varchar(20), category int, elevation int, key (name), key (category), key (elevation))\<newline>;'',
      custom_plants, ''insert into plants values\<newline>'', plants_row 0] @ rest"
proof -
  have "[0..<200000] = 0 # [Suc 0..<200000]" by (rule upt_conv_Cons) simp
  then have "concat (map (plants_chunk 3999 199) [0..<200000]) =
      plants_chunk 3999 199 0 @ concat (map (plants_chunk 3999 199) [Suc 0..<200000])"
    by (simp only: list.map concat.simps)
  moreover have "plants_chunk 3999 199 0 = [plants_row 0]"
    by (simp add: plants_chunk_def sep_writes_def plants_row_def)
  ultimately show ?thesis unfolding plants_writes_def by simp
qed







lemma sep_writes_nat:
  "sep_writes h (int k) =
     (if 0 < k \<and> k mod 10000 = 0 then ['';\<newline>'', h] else if 0 < k then ['',\<newline>''] else [])"
proof -
  have "(int k mod 10000 = 0) = (k mod 10000 = 0)"
    by (metis of_nat_0_eq_iff of_nat_mod of_nat_numeral)
  then show ?thesis by (simp add: sep_writes_def)
qed

lemma str_int_boundary:
  "str_int 9999 = ''9999''" "str_int 1999 = ''1999''" "str_int 10000 = ''10000''" "str_int 2000 = ''2000''"
  by (simp_all add: str_int_def str_nat.simps digit_char_def)

lemma animals_chunk_9999:
  "animals_chunk 9999 = ['',\<newline>'', ''  (9999,'name9999',1999.0,199.0)'']"
  by (simp add: animals_chunk_def sep_writes_def row_line_def str_int_boundary str_int_small)

lemma animals_chunk_10000:
  "animals_chunk 10000 =
     ['';\<newline>'', ''insert into animals values\<newline>'', ''  (10000,'name10000',2000.0,0.0)'']"
  by (simp add: animals_chunk_def sep_writes_def row_line_def str_int_boundary str_int_small)

lemma upt_boundary: "[0..<200000] = [0..<9999] @ 9999 # 10000 # [10001..<200000]"
proof -
  have "[0..<9999 + 190001] = [0..<9999] @ [9999..<9999 + 190001]"
    by (rule upt_add_eq_append) simp
  then have a: "[0..<200000] = [0..<9999] @ [9999..<200000]"
    by (simp del: upt_rec_numeral)
  have "[9999..<200000] = 9999 # [Suc 9999..<200000]"
    by (rule upt_conv_Cons) simp
  then have b: "[9999..<200000] = 9999 # [10000..<200000]"
    by (simp del: upt_rec_numeral)
  have "[10000..<200000] = 10000 # [Suc 10000..<200000]"
    by (rule upt_conv_Cons) simp
  then have c: "[10000..<200000] = 10000 # [10001..<200000]"
    by (simp del: upt_rec_numeral)
  show ?thesis by (simp only: a b c)
qed

lemma animals_boundary:
  "\<exists>pre post. animals_writes =
      pre @ [''  (9999,'name9999',1999.0,199.0)'', '';\<newline>'', ''insert into animals values\<newline>'',
             ''  (10000,'name10000',2000.0,0.0)''] @ post
    \<and> length (generated_rows pre) = 9999"
proof -
  define c where "c = ''create table animals (id int primary key, name varchar(20), category int, elevation int, key (name), key (category), key (elevation))\<newline>;''"
  define post where "post = concat (map animals_chunk [10001..<200000]) @ ['';\<newline>'']"
  define pre where "pre = [c, custom_animals, ''insert into animals values\<newline>''] @
     concat (map animals_chunk [0..<9999]) @ ['',\<newline>'']"
  have "concat (map animals_chunk [0..<200000]) =
      concat (map animals_chunk [0..<9999]) @ animals_chunk 9999 @ animals_chunk 10000 @
      concat (map animals_chunk [10001..<200000])"
    by (simp only: upt_boundary map_append concat_append list.map concat.simps append_assoc)
  then have "animals_writes =
      [c, custom_animals, ''insert into animals values\<newline>''] @
      (concat (map animals_chunk [0..<9999]) @ animals_chunk 9999 @ animals_chunk 10000 @
      concat (map animals_chunk [10001..<200000])) @ ['';\<newline>'']"
    unfolding animals_writes_def c_def by (simp only:)
  then have a: "animals_writes =
      pre @ [''  (9999,'name9999',1999.0,199.0)'', '';\<newline>'', ''insert into animals values\<newline>'',
             ''  (10000,'name10000',2000.0,0.0)''] @ post"
    unfolding animals_chunk_9999 animals_chunk_10000 pre_def post_def
    by (simp only: append_assoc append.simps)
  have nc: "\<not> is_row c" "\<not> is_row custom_animals" "\<not> is_row ''insert into animals values\<newline>''"
    "\<not> is_row '',\<newline>''"
    by (simp_all add: is_row_def c_def custom_animals_def)
  have "generated_rows pre = map animals_row [0..<9999]"
    unfolding generated_rows_def pre_def filter_append
      filter_concat_chunks [of is_row animals_chunk animals_row, OF filter_animals_chunk]
    using nc by simp
  then have b: "length (generated_rows pre) = 9999" by simp
  show ?thesis using a b by blast
qed

lemma drop3_animals: "drop 3 animals_writes = concat (map animals_chunk [0..<200000]) @ ['';\<newline>'']"
  by (simp add: animals_writes_def)

lemma drop3_plants: "drop 3 plants_writes = concat (map (plants_chunk 3999 199) [0..<200000]) @ ['';\<newline>'']"
  by (simp add: plants_writes_def)

lemma take3_animals:
  "take 3 animals_writes =
     [''create table animals (id int primary key, name varchar(20), category int, elevation int, key (name), key (category), key (elevation))\<newline>;'',
      custom_animals, ''insert into animals values\<newline>'']"
  by (simp add: animals_writes_def)

lemma take3_plants:
  "take 3 plants_writes =
     [''create table plants (id int primary key, name varchar(20), category int, elevation int, key (name), key (category), key (elevation))\<newline>;'',
      custom_plants, ''insert into plants values\<newline>'']"
  by (simp add: plants_writes_def)

lemma not_create_batches:
  "filter is_create_table (map (\<lambda>j. ''\<newline>'' @ f j) js) = []"
  by (simp add: filter_empty_conv is_create_table_def)

lemma digit_char_nonzero:
  assumes "0 < d" "d < 10"
  shows "digit_char d \<in> set ''123456789''"
proof -
  have "d = 1 \<or> d = 2 \<or> d = 3 \<or> d = 4 \<or> d = 5 \<or> d = 6 \<or> d = 7 \<or> d = 8 \<or> d = 9"
    using assms by arith
  then show ?thesis by (auto simp: digit_char_def)
qed

lemma hd_str_nat: "0 < n \<Longrightarrow> hd (str_nat n) \<in> set ''123456789''"
proof (induction n rule: str_nat.induct)
  case (1 n)
  show ?case
  proof (cases "n < 10")
    case True
    then have "str_nat n = [digit_char n]" by (subst str_nat.simps) simp
    then show ?thesis using digit_char_nonzero [of n] True "1.prems" by simp
  next
    case False
    then have p: "0 < n div 10" by simp
    have e: "str_nat n = str_nat (n div 10) @ [digit_char (n mod 10)]"
      using False by (subst str_nat.simps) simp
    have "hd (str_nat n) = hd (str_nat (n div 10))"
      unfolding e using str_nat_nonempty [of "n div 10"] by (rule hd_append2)
    then show ?thesis using "1.IH" [OF False p] by simp
  qed
qed

lemma length_str_nat_one: "n < 10 \<Longrightarrow> length (str_nat n) = 1"
  by (subst str_nat.simps) simp

lemma decimal_digits_str_nat: "decimal_digits (str_nat n)"
proof -
  have "length (str_nat n) = 1 \<or> hd (str_nat n) \<in> set ''123456789''"
  proof (cases "n < 10")
    case True
    then show ?thesis using length_str_nat_one by blast
  next
    case False
    then have "0 < n" by simp
    then show ?thesis using hd_str_nat by blast
  qed
  then show ?thesis
    unfolding decimal_digits_def using str_nat_nonempty [of n] str_nat_digits [of n] by blast
qed

lemma str_int_nat: "str_int (int k) = str_nat k"
  by (simp add: str_int_def)

lemma row_name_nat: "row_name (row_line (int k) c e) = ''name'' @ str_nat k"
  by (simp only: row_name_line str_int_nat)

lemma name_prefix: "take 4 (row_name (row_line (int k) c e)) = ''name''"
  by (simp add: row_name_nat)

lemma name_digits: "drop 4 (row_name (row_line (int k) c e)) = str_nat k"
  by (simp add: row_name_nat)

section \<open>Properties of the two files\<close>

text \<open>
  Claim C1: for every generated row with id \<open>i\<close>, in both files, the written category is
  \<open>i mod (row_cnt / 50)\<close> and the written elevation is \<open>i mod (row_cnt / 1000)\<close>.
  This holds for every row of \<open>animals.sql\<close> (the values are floats, so the text is the
  remainder followed by \<open>.0\<close>). It fails in \<open>plants.sql\<close>, whose loop writes the row
  before it assigns the two names: row 1 is written with the remainders of row 0, where
  the first loop writes the remainders of row 1.
\<close>

theorem plants_row_1_stale:
  "\<exists>A P. main = Inr (A, P)
     \<and> map row_category (generated_rows A) = map (\<lambda>k. str_int (int k mod 4000) @ ''.0'') [0..<nat row_cnt]
     \<and> map row_elevation (generated_rows A) = map (\<lambda>k. str_int (int k mod 200) @ ''.0'') [0..<nat row_cnt]
     \<and> generated_rows A ! 1 = ''  (1,'name1',1.0,1.0)''
     \<and> generated_rows P ! 1 = ''  (1,'name1',0.0,0.0)''
     \<and> row_category (generated_rows P ! 1) \<noteq> str_int (1 mod 4000) @ ''.0''
     \<and> row_elevation (generated_rows P ! 1) \<noteq> str_int (1 mod 200) @ ''.0''"
proof -
  have a: "map row_category (generated_rows animals_writes) =
      map (\<lambda>k. str_int (int k mod 4000) @ ''.0'') [0..<nat row_cnt]"
    by (simp add: generated_rows_animals nat_row_cnt animals_row_def row_category_line)
  have b: "map row_elevation (generated_rows animals_writes) =
      map (\<lambda>k. str_int (int k mod 200) @ ''.0'') [0..<nat row_cnt]"
    by (simp add: generated_rows_animals nat_row_cnt animals_row_def row_elevation_line)
  have c: "generated_rows animals_writes ! 1 = ''  (1,'name1',1.0,1.0)''"
    using animals_row_1 by (simp add: generated_rows_animals)
  have d: "generated_rows plants_writes ! 1 = plants_row 1"
    by (simp add: generated_rows_plants)
  have e: "row_category (plants_row 1) = ''0.0''" "row_elevation (plants_row 1) = ''0.0''"
    by (simp_all add: plants_row_def row_category_line row_elevation_line lagged_def str_int_small)
  have f: "row_category (generated_rows plants_writes ! 1) \<noteq> str_int (1 mod 4000) @ ''.0''"
    "row_elevation (generated_rows plants_writes ! 1) \<noteq> str_int (1 mod 200) @ ''.0''"
    unfolding d e by (simp_all add: str_int_small)
  have g: "generated_rows plants_writes ! 1 = ''  (1,'name1',0.0,0.0)''"
    by (simp only: d plants_row_1)
  show ?thesis
    by (intro exI conjI) (rule main_eq a b c g f)+
qed

text \<open>
  Claim C2: every generated row of \<open>plants.sql\<close> with index \<open>i \<ge> 1\<close> is written with
  category \<open>(i - 1) mod (row_cnt / 50)\<close> and elevation \<open>(i - 1) mod (row_cnt / 1000)\<close>,
  one iteration behind the first loop. The rows after the first have the ids
  \<open>1, \<dots>, row_cnt - 1\<close> in this order, and their two last columns are those remainders,
  rendered as floats.
\<close>

theorem plants_rows_lag:
  "\<exists>A P. main = Inr (A, P)
     \<and> map row_id (tl (generated_rows P)) = map int [1..<nat row_cnt]
     \<and> map row_category (tl (generated_rows P)) =
         map (\<lambda>k. str_int ((int k - 1) mod 4000) @ ''.0'') [1..<nat row_cnt]
     \<and> map row_elevation (tl (generated_rows P)) =
         map (\<lambda>k. str_int ((int k - 1) mod 200) @ ''.0'') [1..<nat row_cnt]"
proof -
  have t: "tl (generated_rows plants_writes) = map plants_row [1..<200000]"
    by (simp only: generated_rows_plants tl_rows)
  have a: "map row_id (tl (generated_rows plants_writes)) = map int [1..<nat row_cnt]"
    by (simp add: t nat_row_cnt plants_row_def row_id_line)
  have b: "map row_category (tl (generated_rows plants_writes)) =
         map (\<lambda>k. str_int ((int k - 1) mod 4000) @ ''.0'') [1..<nat row_cnt]"
    by (simp add: t nat_row_cnt plants_row_lag row_category_line)
  have c: "map row_elevation (tl (generated_rows plants_writes)) =
         map (\<lambda>k. str_int ((int k - 1) mod 200) @ ''.0'') [1..<nat row_cnt]"
    by (simp add: t nat_row_cnt plants_row_lag row_elevation_line)
  show ?thesis
    by (intro exI conjI) (rule main_eq a b c)+
qed

text \<open>
  Claim C3: the batch size and the two moduli are floats, so category and elevation are
  floats in every generated row, and both files render them with a trailing \<open>.0\<close>. Every
  generated row is the rendering of two float values; the first generated row of
  \<open>animals.sql\<close> is \<open>(0,'name0',0.0,0.0)\<close>; in neither file is there a generated row whose
  category or elevation has the form of a rendered int, a form that every rendered int
  has.
\<close>

theorem rows_written_as_floats:
  "\<exists>A P. main = Inr (A, P)
     \<and> py_truediv (PyInt row_cnt) (PyInt 20) = Inr (PyFloat 10000)
     \<and> py_truediv (PyInt row_cnt) (PyInt 50) = Inr (PyFloat 4000)
     \<and> py_truediv (PyInt row_cnt) (PyInt 1000) = Inr (PyFloat 200)
     \<and> map Inr (generated_rows A) =
         map (\<lambda>k. row_text (int k) (PyFloat (of_int (int k mod 4000))) (PyFloat (of_int (int k mod 200))))
           [0..<nat row_cnt]
     \<and> map Inr (generated_rows P) =
         map (\<lambda>k. row_text (int k) (PyFloat (of_int (lagged 3999 4000 k))) (PyFloat (of_int (lagged 199 200 k))))
           [0..<nat row_cnt]
     \<and> map row_category (generated_rows A) = map (\<lambda>k. str_int (int k mod 4000) @ ''.0'') [0..<nat row_cnt]
     \<and> map row_elevation (generated_rows A) = map (\<lambda>k. str_int (int k mod 200) @ ''.0'') [0..<nat row_cnt]
     \<and> map row_category (generated_rows P) = map (\<lambda>k. str_int (lagged 3999 4000 k) @ ''.0'') [0..<nat row_cnt]
     \<and> map row_elevation (generated_rows P) = map (\<lambda>k. str_int (lagged 199 200 k) @ ''.0'') [0..<nat row_cnt]
     \<and> generated_rows A ! 0 = ''  (0,'name0',0.0,0.0)''
     \<and> filter (\<lambda>w. int_formatted (row_category w) \<or> int_formatted (row_elevation w)) (generated_rows A) = []
     \<and> filter (\<lambda>w. int_formatted (row_category w) \<or> int_formatted (row_elevation w)) (generated_rows P) = []
     \<and> (\<forall>a. int_formatted (str_int a))"
proof -
  have la: "0 \<le> lagged 3999 4000 k \<and> lagged 3999 4000 k < 2 ^ 53" for k
    by (rule lagged_ok) simp_all
  have lb: "0 \<le> lagged 199 200 k \<and> lagged 199 200 k < 2 ^ 53" for k
    by (rule lagged_ok) simp_all
  have ma: "0 \<le> int k mod 4000 \<and> int k mod 4000 < 2 ^ 53" for k
    by (rule mod_float_ok) simp_all
  have mb: "0 \<le> int k mod 200 \<and> int k mod 200 < 2 ^ 53" for k
    by (rule mod_float_ok) simp_all
  have ta: "row_text (int k) (PyFloat (of_int (int k mod 4000))) (PyFloat (of_int (int k mod 200)))
      = Inr (animals_row k)" for k
    unfolding animals_row_def using ma [of k] mb [of k] by (intro row_text_float) simp_all
  have tp: "row_text (int k) (PyFloat (of_int (lagged 3999 4000 k))) (PyFloat (of_int (lagged 199 200 k)))
      = Inr (plants_row k)" for k
    unfolding plants_row_def using la [of k] lb [of k] by (intro row_text_float) simp_all
  have a1: "map Inr (generated_rows animals_writes) =
         map (\<lambda>k. row_text (int k) (PyFloat (of_int (int k mod 4000))) (PyFloat (of_int (int k mod 200))))
           [0..<nat row_cnt]"
    by (simp add: generated_rows_animals nat_row_cnt ta del: py_str.simps)
  have p1: "map Inr (generated_rows plants_writes) =
         map (\<lambda>k. row_text (int k) (PyFloat (of_int (lagged 3999 4000 k))) (PyFloat (of_int (lagged 199 200 k))))
           [0..<nat row_cnt]"
    by (simp add: generated_rows_plants nat_row_cnt tp del: py_str.simps)
  have a2: "map row_category (generated_rows animals_writes) =
      map (\<lambda>k. str_int (int k mod 4000) @ ''.0'') [0..<nat row_cnt]"
    by (simp add: generated_rows_animals nat_row_cnt animals_row_def row_category_line)
  have a3: "map row_elevation (generated_rows animals_writes) =
      map (\<lambda>k. str_int (int k mod 200) @ ''.0'') [0..<nat row_cnt]"
    by (simp add: generated_rows_animals nat_row_cnt animals_row_def row_elevation_line)
  have p2: "map row_category (generated_rows plants_writes) =
      map (\<lambda>k. str_int (lagged 3999 4000 k) @ ''.0'') [0..<nat row_cnt]"
    by (simp add: generated_rows_plants nat_row_cnt plants_row_def row_category_line)
  have p3: "map row_elevation (generated_rows plants_writes) =
      map (\<lambda>k. str_int (lagged 199 200 k) @ ''.0'') [0..<nat row_cnt]"
    by (simp add: generated_rows_plants nat_row_cnt plants_row_def row_elevation_line)
  have r0: "generated_rows animals_writes ! 0 = ''  (0,'name0',0.0,0.0)''"
    using animals_row_0 by (simp add: generated_rows_animals)
  have fa: "filter (\<lambda>w. int_formatted (row_category w) \<or> int_formatted (row_elevation w))
      (generated_rows animals_writes) = []"
    unfolding generated_rows_animals filter_empty_conv animals_row_def
    using row_fields_not_int by auto
  have fp: "filter (\<lambda>w. int_formatted (row_category w) \<or> int_formatted (row_elevation w))
      (generated_rows plants_writes) = []"
    unfolding generated_rows_plants filter_empty_conv plants_row_def
    using row_fields_not_int by auto
  have all: "\<forall>a. int_formatted (str_int a)"
    using int_formatted_str_int by blast
  show ?thesis
    by (intro exI conjI) (rule main_eq truediv_20 truediv_50 truediv_1000 a1 p1 a2 a3 p2 p3 r0 fa fp all)+
qed

text \<open>
  Claim C4: a generated row whose index is a nonzero multiple of 10000 is preceded by the
  write of \<open>;\<close> and the write of a new \<open>insert into ... values\<close> clause, every other row
  with \<open>i > 0\<close> by the write of a comma, and row 0 by nothing. In \<open>animals.sql\<close> the row
  with id 9999 (the 10000th generated row) is followed by \<open>;\<close>, then by the clause, then
  by the row with id 10000.
\<close>

theorem batch_boundaries:
  "\<exists>A P. main = Inr (A, P)
     \<and> drop 3 A =
         concat (map (\<lambda>k. (if 0 < k \<and> k mod 10000 = 0 then ['';\<newline>'', ''insert into animals values\<newline>'']
                           else if 0 < k then ['',\<newline>''] else []) @ [generated_rows A ! k])
                  [0 ..< nat row_cnt]) @ ['';\<newline>'']
     \<and> drop 3 P =
         concat (map (\<lambda>k. (if 0 < k \<and> k mod 10000 = 0 then ['';\<newline>'', ''insert into plants values\<newline>'']
                           else if 0 < k then ['',\<newline>''] else []) @ [generated_rows P ! k])
                  [0 ..< nat row_cnt]) @ ['';\<newline>'']
     \<and> (\<exists>pre post. A =
            pre @ [''  (9999,'name9999',1999.0,199.0)'', '';\<newline>'', ''insert into animals values\<newline>'',
                   ''  (10000,'name10000',2000.0,0.0)''] @ post
          \<and> length (generated_rows pre) = 9999)"
proof -
  have ma: "map (\<lambda>k. (if 0 < k \<and> k mod 10000 = 0 then ['';\<newline>'', ''insert into animals values\<newline>'']
                           else if 0 < k then ['',\<newline>''] else []) @ [generated_rows animals_writes ! k])
                  [0 ..< 200000] = map animals_chunk [0 ..< 200000]"
    by (rule map_cong [OF refl])
      (simp add: generated_rows_animals animals_chunk_def sep_writes_nat animals_row_def)
  have mp: "map (\<lambda>k. (if 0 < k \<and> k mod 10000 = 0 then ['';\<newline>'', ''insert into plants values\<newline>'']
                           else if 0 < k then ['',\<newline>''] else []) @ [generated_rows plants_writes ! k])
                  [0 ..< 200000] = map (plants_chunk 3999 199) [0 ..< 200000]"
    by (rule map_cong [OF refl])
      (simp add: generated_rows_plants plants_chunk_def sep_writes_nat plants_row_def)
  have a: "drop 3 animals_writes =
         concat (map (\<lambda>k. (if 0 < k \<and> k mod 10000 = 0 then ['';\<newline>'', ''insert into animals values\<newline>'']
                           else if 0 < k then ['',\<newline>''] else []) @ [generated_rows animals_writes ! k])
                  [0 ..< 200000]) @ ['';\<newline>'']"
    by (simp only: ma drop3_animals)
  have p: "drop 3 plants_writes =
         concat (map (\<lambda>k. (if 0 < k \<and> k mod 10000 = 0 then ['';\<newline>'', ''insert into plants values\<newline>'']
                           else if 0 < k then ['',\<newline>''] else []) @ [generated_rows plants_writes ! k])
                  [0 ..< 200000]) @ ['';\<newline>'']"
    by (simp only: mp drop3_plants)
  show ?thesis
    unfolding nat_row_cnt
    apply (rule exI [of _ animals_writes])
    apply (rule exI [of _ plants_writes])
    apply (intro conjI)
       apply (rule main_eq)
      apply (rule a)
     apply (rule p)
    apply (rule animals_boundary)
    done
qed

text \<open>
  Claim C5: in each file every statement ends with exactly one semicolon, no \<open>INSERT\<close> is
  empty, and the first generated row follows its \<open>values\<close> clause with no separator. Cut at
  the semicolons, a file is the \<open>CREATE TABLE\<close> statement, the \<open>INSERT\<close> of the three
  fixed rows, twenty \<open>INSERT\<close>s that each hold one batch of generated rows joined by
  commas, and a final line break. Each batch has 10000 rows, the batches together are
  the generated rows, no row contains a semicolon, and the write after the first
  \<open>values\<close> clause is the first generated row.
\<close>

theorem statements_terminated:
  "\<exists>A P. main = Inr (A, P)
     \<and> split_on CHR '';'' (file_content A) =
         [''create table animals (id int primary key, name varchar(20), category int, elevation int, key (name), key (category), key (elevation))\<newline>'',
          ''insert into animals values\<newline>  (-1,'goat',2,4),\<newline>  (-2,'cow',1,3),\<newline>  (-3,'chicken',0,1)''] @
         map (\<lambda>j. ''\<newline>'' @ ''insert into animals values\<newline>'' @
                    concat (interleave '',\<newline>'' (batch (generated_rows A) j))) [0 ..< 20] @
         [''\<newline>'']
     \<and> split_on CHR '';'' (file_content P) =
         [''create table plants (id int primary key, name varchar(20), category int, elevation int, key (name), key (category), key (elevation))\<newline>'',
          ''insert into plants values\<newline>  (-1,'sunflower', 3,1),\<newline>  (-2,'carnation',0,1),\<newline>  (-3,'wildflower',4,3)''] @
         map (\<lambda>j. ''\<newline>'' @ ''insert into plants values\<newline>'' @
                    concat (interleave '',\<newline>'' (batch (generated_rows P) j))) [0 ..< 20] @
         [''\<newline>'']
     \<and> map (\<lambda>j. length (batch (generated_rows A) j)) [0 ..< 20] = replicate 20 10000
     \<and> map (\<lambda>j. length (batch (generated_rows P) j)) [0 ..< 20] = replicate 20 10000
     \<and> concat (map (batch (generated_rows A)) [0 ..< 20]) = generated_rows A
     \<and> concat (map (batch (generated_rows P)) [0 ..< 20]) = generated_rows P
     \<and> filter (\<lambda>w. CHR '';'' \<in> set w) (generated_rows A) = []
     \<and> filter (\<lambda>w. CHR '';'' \<in> set w) (generated_rows P) = []
     \<and> A ! 2 = ''insert into animals values\<newline>'' \<and> A ! 3 = generated_rows A ! 0
     \<and> P ! 2 = ''insert into plants values\<newline>'' \<and> P ! 3 = generated_rows P ! 0"
proof -
  have ba: "batch (generated_rows animals_writes) j = map animals_row [j * 10000 ..< j * 10000 + 10000]"
    if "j < 20" for j
    unfolding generated_rows_animals by (rule batch_of_map [OF that])
  have bp: "batch (generated_rows plants_writes) j = map plants_row [j * 10000 ..< j * 10000 + 10000]"
    if "j < 20" for j
    unfolding generated_rows_plants by (rule batch_of_map [OF that])
  have sa: "map (\<lambda>j. ''\<newline>'' @ ''insert into animals values\<newline>'' @
                    concat (interleave '',\<newline>'' (batch (generated_rows animals_writes) j))) [0 ..< 20] =
            map (\<lambda>j. ''\<newline>'' @ ''insert into animals values\<newline>'' @
                concat (interleave '',\<newline>'' (map animals_row [j * 10000 ..< j * 10000 + 10000]))) [0 ..< 20]"
    by (rule map_cong [OF refl]) (simp add: ba)
  have sp: "map (\<lambda>j. ''\<newline>'' @ ''insert into plants values\<newline>'' @
                    concat (interleave '',\<newline>'' (batch (generated_rows plants_writes) j))) [0 ..< 20] =
            map (\<lambda>j. ''\<newline>'' @ ''insert into plants values\<newline>'' @
                concat (interleave '',\<newline>'' (map plants_row [j * 10000 ..< j * 10000 + 10000]))) [0 ..< 20]"
    by (rule map_cong [OF refl]) (simp add: bp)
  have la: "map (\<lambda>j. length (batch (generated_rows animals_writes) j)) [0 ..< 20] = map (\<lambda>j. 10000) [0 ..< 20]"
    by (rule map_cong [OF refl]) (simp add: ba)
  have lp: "map (\<lambda>j. length (batch (generated_rows plants_writes) j)) [0 ..< 20] = map (\<lambda>j. 10000) [0 ..< 20]"
    by (rule map_cong [OF refl]) (simp add: bp)
  have rep: "map (\<lambda>j. 10000::nat) [0 ..< 20] = replicate 20 10000"
    by (simp add: map_replicate_const)
  have ca: "concat (map (batch (generated_rows animals_writes)) [0 ..< 20]) = generated_rows animals_writes"
    unfolding batches_animals using concat_batches [of animals_row 20]
    by (simp add: generated_rows_animals)
  have cp: "concat (map (batch (generated_rows plants_writes)) [0 ..< 20]) = generated_rows plants_writes"
    unfolding batches_plants using concat_batches [of plants_row 20]
    by (simp add: generated_rows_plants)
  have fa: "filter (\<lambda>w. CHR '';'' \<in> set w) (generated_rows animals_writes) = []"
    unfolding generated_rows_animals by (rule no_semi_filter [OF animals_row_no_semi])
  have fp: "filter (\<lambda>w. CHR '';'' \<in> set w) (generated_rows plants_writes) = []"
    unfolding generated_rows_plants by (rule no_semi_filter [OF plants_row_no_semi])
  obtain ra where ra: "animals_writes =
     [''create table animals (id int primary key, name varchar(20), category int, elevation int, key (name), key (category), key (elevation))\<newline>;'',
      custom_animals, ''insert into animals values\<newline>'', animals_row 0] @ ra"
    using animals_writes_head by blast
  obtain rp where rp: "plants_writes =
     [''create table plants (id int primary key, name varchar(20), category int, elevation int, key (name), key (category), key (elevation))\<newline>;'',
      custom_plants, ''insert into plants values\<newline>'', plants_row 0] @ rp"
    using plants_writes_head by blast
  have g0: "generated_rows animals_writes ! 0 = animals_row 0" "generated_rows plants_writes ! 0 = plants_row 0"
    by (simp_all add: generated_rows_animals generated_rows_plants)
  have a2: "animals_writes ! 2 = ''insert into animals values\<newline>''"
    by (subst ra) simp
  have a3: "animals_writes ! 3 = generated_rows animals_writes ! 0"
    unfolding g0 by (subst ra) simp
  have p2: "plants_writes ! 2 = ''insert into plants values\<newline>''"
    by (subst rp) simp
  have p3: "plants_writes ! 3 = generated_rows plants_writes ! 0"
    unfolding g0 by (subst rp) simp
  show ?thesis
    apply (intro exI conjI)
                apply (rule main_eq)
               apply (simp only: sa statements_animals)
              apply (simp only: sp statements_plants)
             apply (simp only: la rep)
            apply (simp only: lp rep)
           apply (rule ca)
          apply (rule cp)
         apply (rule fa)
        apply (rule fp)
       apply (rule a2)
      apply (rule a3)
     apply (rule p2)
    apply (rule p3)
    done
qed


text \<open>
  Claim C7: in each file the ids of the generated rows are exactly \<open>0, \<dots>, row_cnt - 1\<close>,
  each once and in increasing order, and none of them is the id of one of the three
  hand-authored rows, which are \<open>-1\<close>, \<open>-2\<close> and \<open>-3\<close>.
\<close>

theorem row_ids_unique:
  "\<exists>A P. main = Inr (A, P)
     \<and> map row_id (generated_rows A) = py_range row_cnt
     \<and> map row_id (generated_rows P) = py_range row_cnt
     \<and> py_range row_cnt = map int [0..<200000]
     \<and> A ! 1 = custom_animals \<and> P ! 1 = custom_plants
     \<and> map row_id (seed_rows (A ! 1)) = [-1, -2, -3]
     \<and> map row_id (seed_rows (P ! 1)) = [-1, -2, -3]
     \<and> distinct (map row_id (seed_rows (A ! 1) @ generated_rows A))
     \<and> distinct (map row_id (seed_rows (P ! 1) @ generated_rows P))"
proof -
  have a1: "animals_writes ! 1 = custom_animals" by (simp add: animals_writes_def)
  have p1: "plants_writes ! 1 = custom_plants" by (simp add: plants_writes_def)
  have sa: "map row_id (seed_rows (animals_writes ! 1)) = [-1, -2, -3]"
    by (simp only: a1 seed_ids_animals)
  have sp: "map row_id (seed_rows (plants_writes ! 1)) = [-1, -2, -3]"
    by (simp only: p1 seed_ids_plants)
  have da: "distinct (map row_id (seed_rows (animals_writes ! 1) @ generated_rows animals_writes))"
    unfolding map_append sa ids_animals range_row_cnt by (rule distinct_seed_generated)
  have dp: "distinct (map row_id (seed_rows (plants_writes ! 1) @ generated_rows plants_writes))"
    unfolding map_append sp ids_plants range_row_cnt by (rule distinct_seed_generated)
  show ?thesis
    by (intro exI conjI) (rule main_eq ids_animals ids_plants range_row_cnt a1 p1 sa sp da dp)+
qed

text \<open>
  Claim C8: each file begins with one \<open>CREATE TABLE\<close> statement with the four columns
  \<open>id int primary key\<close>, \<open>name varchar(20)\<close>, \<open>category int\<close>, \<open>elevation int\<close> and the
  three keys on \<open>name\<close>, \<open>category\<close> and \<open>elevation\<close>, followed by three fixed rows, then
  by the generated rows. The first three writes are the statement, the fixed rows and
  the first \<open>values\<close> clause; no other statement of the file is a \<open>CREATE TABLE\<close>; the
  fixed block has exactly three rows; all \<open>row_cnt\<close> generated rows come after.
\<close>

theorem file_layout:
  "\<exists>A P. main = Inr (A, P)
     \<and> take 3 A =
         [''create table animals (id int primary key, name varchar(20), category int, elevation int, key (name), key (category), key (elevation))\<newline>;'',
          custom_animals, ''insert into animals values\<newline>'']
     \<and> take 3 P =
         [''create table plants (id int primary key, name varchar(20), category int, elevation int, key (name), key (category), key (elevation))\<newline>;'',
          custom_plants, ''insert into plants values\<newline>'']
     \<and> filter is_create_table (split_on CHR '';'' (file_content A)) =
         [''create table animals (id int primary key, name varchar(20), category int, elevation int, key (name), key (category), key (elevation))\<newline>'']
     \<and> filter is_create_table (split_on CHR '';'' (file_content P)) =
         [''create table plants (id int primary key, name varchar(20), category int, elevation int, key (name), key (category), key (elevation))\<newline>'']
     \<and> is_create_table (split_on CHR '';'' (file_content A) ! 0)
     \<and> is_create_table (split_on CHR '';'' (file_content P) ! 0)
     \<and> seed_rows (A ! 1) = [''  (-1,'goat',2,4),'', ''  (-2,'cow',1,3),'', ''  (-3,'chicken',0,1);'']
     \<and> seed_rows (P ! 1) =
         [''  (-1,'sunflower', 3,1),'', ''  (-2,'carnation',0,1),'', ''  (-3,'wildflower',4,3);'']
     \<and> generated_rows (take 3 A) = [] \<and> length (generated_rows (drop 3 A)) = nat row_cnt
     \<and> generated_rows (take 3 P) = [] \<and> length (generated_rows (drop 3 P)) = nat row_cnt"
proof -
  have ca: "filter is_create_table (split_on CHR '';'' (file_content animals_writes)) =
         [''create table animals (id int primary key, name varchar(20), category int, elevation int, key (name), key (category), key (elevation))\<newline>'']"
    unfolding statements_animals filter_append not_create_batches
    by (simp add: is_create_table_def)
  have cp: "filter is_create_table (split_on CHR '';'' (file_content plants_writes)) =
         [''create table plants (id int primary key, name varchar(20), category int, elevation int, key (name), key (category), key (elevation))\<newline>'']"
    unfolding statements_plants filter_append not_create_batches
    by (simp add: is_create_table_def)
  have fa: "is_create_table (split_on CHR '';'' (file_content animals_writes) ! 0)"
    unfolding statements_animals by (simp add: is_create_table_def)
  have fp: "is_create_table (split_on CHR '';'' (file_content plants_writes) ! 0)"
    unfolding statements_plants by (simp add: is_create_table_def)
  have a1: "animals_writes ! 1 = custom_animals" by (simp add: animals_writes_def)
  have p1: "plants_writes ! 1 = custom_plants" by (simp add: plants_writes_def)
  have sa: "seed_rows (animals_writes ! 1) = [''  (-1,'goat',2,4),'', ''  (-2,'cow',1,3),'', ''  (-3,'chicken',0,1);'']"
    by (simp only: a1 seed_rows_animals)
  have sp: "seed_rows (plants_writes ! 1) =
         [''  (-1,'sunflower', 3,1),'', ''  (-2,'carnation',0,1),'', ''  (-3,'wildflower',4,3);'']"
    by (simp only: p1 seed_rows_plants)
  have ga: "generated_rows (take 3 animals_writes) = []"
    unfolding take3_animals by (simp add: generated_rows_def is_row_def custom_animals_def)
  have gp: "generated_rows (take 3 plants_writes) = []"
    unfolding take3_plants by (simp add: generated_rows_def is_row_def custom_plants_def)
  have "generated_rows (drop 3 animals_writes) = map animals_row [0..<200000]"
    unfolding drop3_animals generated_rows_def filter_append
    by (simp add: filter_concat_chunks [of is_row animals_chunk animals_row, OF filter_animals_chunk] is_row_def)
  then have la: "length (generated_rows (drop 3 animals_writes)) = nat row_cnt"
    by (simp add: nat_row_cnt)
  have "generated_rows (drop 3 plants_writes) = map plants_row [0..<200000]"
    unfolding drop3_plants generated_rows_def filter_append
    by (simp add: filter_concat_chunks [of is_row "plants_chunk 3999 199" plants_row, OF filter_plants_chunk] is_row_def)
  then have lp: "length (generated_rows (drop 3 plants_writes)) = nat row_cnt"
    by (simp add: nat_row_cnt)
  show ?thesis
    by (intro exI conjI) (rule main_eq take3_animals take3_plants ca cp fa fp sa sp ga gp la lp)+
qed

text \<open>
  Claim C9: in either file the name of the generated row with id \<open>i\<close> is \<open>name\<close> followed by
  the decimal digits of \<open>i\<close>, and no name is longer than 20 characters. The first four
  characters of every name are \<open>name\<close>; what follows is a decimal numeral (not empty,
  digits only, no leading zero) whose value, read back digit by digit, is the position
  of the row, \<open>0, \<dots>, row_cnt - 1\<close>, and is the id read from the same row.
\<close>

theorem row_names_fit:
  "\<exists>A P. main = Inr (A, P)
     \<and> map row_name (generated_rows A) = map (\<lambda>k. ''name'' @ str_int (int k)) [0..<nat row_cnt]
     \<and> map row_name (generated_rows P) = map (\<lambda>k. ''name'' @ str_int (int k)) [0..<nat row_cnt]
     \<and> filter (\<lambda>w. length (row_name w) > 20) (generated_rows A) = []
     \<and> filter (\<lambda>w. length (row_name w) > 20) (generated_rows P) = []
     \<and> map (\<lambda>w. take 4 (row_name w)) (generated_rows A) = replicate (nat row_cnt) ''name''
     \<and> map (\<lambda>w. take 4 (row_name w)) (generated_rows P) = replicate (nat row_cnt) ''name''
     \<and> filter (\<lambda>w. \<not> decimal_digits (drop 4 (row_name w))) (generated_rows A) = []
     \<and> filter (\<lambda>w. \<not> decimal_digits (drop 4 (row_name w))) (generated_rows P) = []
     \<and> map (\<lambda>w. parse_nat (drop 4 (row_name w))) (generated_rows A) = [0..<nat row_cnt]
     \<and> map (\<lambda>w. parse_nat (drop 4 (row_name w))) (generated_rows P) = [0..<nat row_cnt]
     \<and> map (\<lambda>w. int (parse_nat (drop 4 (row_name w)))) (generated_rows A) = map row_id (generated_rows A)
     \<and> map (\<lambda>w. int (parse_nat (drop 4 (row_name w)))) (generated_rows P) = map row_id (generated_rows P)"
proof -
  have na: "map row_name (generated_rows animals_writes) =
      map (\<lambda>k. ''name'' @ str_int (int k)) [0..<nat row_cnt]"
    by (simp add: generated_rows_animals nat_row_cnt animals_row_def row_name_line)
  have np: "map row_name (generated_rows plants_writes) =
      map (\<lambda>k. ''name'' @ str_int (int k)) [0..<nat row_cnt]"
    by (simp add: generated_rows_plants nat_row_cnt plants_row_def row_name_line)
  have la: "\<not> length (row_name (animals_row k)) > 20" if "k < 200000" for k
    using length_name [OF that] by (simp add: animals_row_def row_name_line)
  have lp: "\<not> length (row_name (plants_row k)) > 20" if "k < 200000" for k
    using length_name [OF that] by (simp add: plants_row_def row_name_line)
  have fa: "filter (\<lambda>w. length (row_name w) > 20) (generated_rows animals_writes) = []"
    unfolding generated_rows_animals filter_empty_conv using la by auto
  have fp: "filter (\<lambda>w. length (row_name w) > 20) (generated_rows plants_writes) = []"
    unfolding generated_rows_plants filter_empty_conv using lp by auto
  have rep: "map (\<lambda>k. ''name'') [0..<200000] = replicate 200000 ''name''"
    by (simp add: map_replicate_const)
  have pa: "map (\<lambda>w. take 4 (row_name w)) (generated_rows animals_writes) = replicate (nat row_cnt) ''name''"
    unfolding generated_rows_animals nat_row_cnt map_map comp_def animals_row_def name_prefix
    by (rule rep)
  have pp: "map (\<lambda>w. take 4 (row_name w)) (generated_rows plants_writes) = replicate (nat row_cnt) ''name''"
    unfolding generated_rows_plants nat_row_cnt map_map comp_def plants_row_def name_prefix
    by (rule rep)
  have da: "filter (\<lambda>w. \<not> decimal_digits (drop 4 (row_name w))) (generated_rows animals_writes) = []"
    unfolding generated_rows_animals filter_empty_conv
    by (simp add: animals_row_def name_digits decimal_digits_str_nat)
  have dp: "filter (\<lambda>w. \<not> decimal_digits (drop 4 (row_name w))) (generated_rows plants_writes) = []"
    unfolding generated_rows_plants filter_empty_conv
    by (simp add: plants_row_def name_digits decimal_digits_str_nat)
  have va: "map (\<lambda>w. parse_nat (drop 4 (row_name w))) (generated_rows animals_writes) = [0..<nat row_cnt]"
    unfolding generated_rows_animals nat_row_cnt map_map comp_def animals_row_def name_digits parse_str_nat
    by simp
  have vp: "map (\<lambda>w. parse_nat (drop 4 (row_name w))) (generated_rows plants_writes) = [0..<nat row_cnt]"
    unfolding generated_rows_plants nat_row_cnt map_map comp_def plants_row_def name_digits parse_str_nat
    by simp
  have ia: "map (\<lambda>w. int (parse_nat (drop 4 (row_name w)))) (generated_rows animals_writes) =
      map row_id (generated_rows animals_writes)"
    unfolding generated_rows_animals map_map comp_def animals_row_def name_digits parse_str_nat row_id_line
    by simp
  have ip: "map (\<lambda>w. int (parse_nat (drop 4 (row_name w)))) (generated_rows plants_writes) =
      map row_id (generated_rows plants_writes)"
    unfolding generated_rows_plants map_map comp_def plants_row_def name_digits parse_str_nat row_id_line
    by simp
  show ?thesis
    by (intro exI conjI) (rule main_eq na np fa fp pa pp da dp va vp ia ip)+
qed

text \<open>
  Claim C10: the first generated row of \<open>plants.sql\<close> is written with the values that the
  last iteration of the first loop left in \<open>category\<close> and \<open>elevation\<close>, the remainders
  3999 and 199 of 199999. The first block ends with these values in the two names, the
  row with id 0 of \<open>plants.sql\<close> shows them, and the second block run with the two names
  unbound stops with a \<open>NameError\<close>.
\<close>

theorem plants_first_row_leftover:
  "\<exists>A P sa. main = Inr (A, P)
     \<and> animals_block (PyFloat 10000) \<lparr>fout = [], category = None, elevation = None\<rparr> = Inr sa
     \<and> category sa = Some (PyFloat (of_int (199999 mod 4000)))
     \<and> elevation sa = Some (PyFloat (of_int (199999 mod 200)))
     \<and> generated_rows P ! 0 = ''  (0,'name0',3999.0,199.0)''
     \<and> row_category (generated_rows P ! 0) = str_int (199999 mod 4000) @ ''.0''
     \<and> row_elevation (generated_rows P ! 0) = str_int (199999 mod 200) @ ''.0''
     \<and> plants_block (PyFloat 10000) \<lparr>fout = [], category = None, elevation = None\<rparr>
           = Inl (NameError ''category'')"
proof -
  let ?sa = "\<lparr>fout = animals_writes, category = Some (PyFloat 3999), elevation = Some (PyFloat 199)\<rparr>"
  have b: "animals_block (PyFloat 10000) \<lparr>fout = [], category = None, elevation = None\<rparr> = Inr ?sa"
    by (rule animals_block_eq)
  have c: "category ?sa = Some (PyFloat (of_int (199999 mod 4000)))"
    "elevation ?sa = Some (PyFloat (of_int (199999 mod 200)))"
    by simp_all
  have r: "generated_rows plants_writes ! 0 = plants_row 0"
    by (simp add: generated_rows_plants)
  have r0: "generated_rows plants_writes ! 0 = ''  (0,'name0',3999.0,199.0)''"
    by (simp only: r plants_row_0)
  have rc: "row_category (generated_rows plants_writes ! 0) = str_int (199999 mod 4000) @ ''.0''"
    "row_elevation (generated_rows plants_writes ! 0) = str_int (199999 mod 200) @ ''.0''"
    unfolding r plants_row_def by (simp_all add: row_category_line row_elevation_line lagged_def)
  have "[0..<200000] = 0 # [Suc 0..<200000]"
    by (rule upt_conv_Cons) simp
  then have "py_range row_cnt = 0 # map int [Suc 0..<200000]"
    by (simp only: range_row_cnt list.map of_nat_0)
  then have e: "plants_block (PyFloat 10000) \<lparr>fout = [], category = None, elevation = None\<rparr>
           = Inl (NameError ''category'')"
    by (simp add: plants_block_def plants_body_def write_row_def separator_def read_name_def ebind_def f_write_def)
  show ?thesis
    by (intro exI conjI) (rule main_eq b c r0 rc e)+
qed

end
